theory Spec2Isabelle
  imports Complex_Main
begin

section \<open>JavaScript values\<close>

text \<open>
  The server handles decoded JSON bodies without validating them, so the model keeps
  them as untyped JavaScript values. \<open>JUndefined\<close> is the value of a missing
  property. A number is the rational it denotes: the program does no arithmetic on
  backend numbers, it only tests them for truthiness and for \<open>=== 0\<close>. An object is
  its list of own properties; a property is looked up with \<open>map_of\<close>.
\<close>

datatype jsval =
    JUndefined
  | JNull
  | JBool bool
  | JNum rat
  | JStr string
  | JArr "jsval list"
  | JObj "(string \<times> jsval) list"

text \<open>
  A raised exception. \<open>Error m\<close> is \<open>new Error(m)\<close> of the source; \<open>TypeError m\<close>
  is raised by the engine itself (reading a property of \<open>null\<close>, calling a value that
  is not a function); its message texts follow V8, the engine of Node.
\<close>

datatype error = Error string | TypeError string

fun message :: "error \<Rightarrow> string" where
  "message (Error m) = m"
| "message (TypeError m) = m"

text \<open>ToBoolean: what \<open>!x\<close>, \<open>x && y\<close> and \<open>x || y\<close> test.\<close>

fun truthy :: "jsval \<Rightarrow> bool" where
  "truthy JUndefined = False"
| "truthy JNull = False"
| "truthy (JBool b) = b"
| "truthy (JNum r) = (r \<noteq> 0)"
| "truthy (JStr s) = (s \<noteq> [])"
| "truthy (JArr xs) = True"
| "truthy (JObj kvs) = True"

text \<open>\<open>a || b\<close> on values.\<close>

definition js_or :: "jsval \<Rightarrow> jsval \<Rightarrow> jsval" where
  "js_or a b = (if truthy a then a else b)"

definition quoted :: "string \<Rightarrow> string" where
  "quoted k = [CHR 0x27] @ k @ [CHR 0x27]"

text \<open>
  \<open>v.k\<close> for the data properties the program reads (\<open>token\<close>, \<open>success\<close>,
  \<open>totalFound\<close>, \<open>products\<close>, \<open>threshold\<close>, \<open>cacheInfo\<close>, \<open>length\<close> and the
  product fields). Reading a property of \<open>undefined\<close> or \<open>null\<close> raises; arrays and
  strings have a \<open>length\<close>; every other primitive has none of these properties.
\<close>

fun js_prop :: "jsval \<Rightarrow> string \<Rightarrow> error + jsval" where
  "js_prop JUndefined k =
     Inl (TypeError (''Cannot read properties of undefined (reading '' @ quoted k @ '')''))"
| "js_prop JNull k =
     Inl (TypeError (''Cannot read properties of null (reading '' @ quoted k @ '')''))"
| "js_prop (JObj kvs) k = Inr (case map_of kvs k of Some v \<Rightarrow> v | None \<Rightarrow> JUndefined)"
| "js_prop (JArr xs) k = Inr (if k = ''length'' then JNum (of_nat (length xs)) else JUndefined)"
| "js_prop (JStr s) k = Inr (if k = ''length'' then JNum (of_nat (length s)) else JUndefined)"
| "js_prop (JBool b) k = Inr JUndefined"
| "js_prop (JNum r) k = Inr JUndefined"

text \<open>Running a callback over a list; the first callback that raises ends the loop.\<close>

fun map_raise :: "('a \<Rightarrow> error + 'b) \<Rightarrow> 'a list \<Rightarrow> error + 'b list" where
  "map_raise f [] = Inr []"
| "map_raise f (x # xs) =
     (case f x of
        Inl e \<Rightarrow> Inl e
      | Inr y \<Rightarrow> (case map_raise f xs of Inl e \<Rightarrow> Inl e | Inr ys \<Rightarrow> Inr (y # ys)))"

text \<open>
  \<open>v.map(f)\<close>, with \<open>src\<close> the source text of \<open>v\<close> (V8 prints it in the message).
  Only an array has a callable \<open>map\<close>: a decoded JSON object never holds a function.
\<close>

fun js_map :: "string \<Rightarrow> (jsval \<Rightarrow> error + jsval) \<Rightarrow> jsval \<Rightarrow> error + jsval" where
  "js_map src f (JArr xs) =
     (case map_raise f xs of Inl e \<Rightarrow> Inl e | Inr ys \<Rightarrow> Inr (JArr ys))"
| "js_map src f JUndefined =
     Inl (TypeError (''Cannot read properties of undefined (reading '' @ quoted ''map'' @ '')''))"
| "js_map src f JNull =
     Inl (TypeError (''Cannot read properties of null (reading '' @ quoted ''map'' @ '')''))"
| "js_map src f v = Inl (TypeError (src @ ''.map is not a function''))"

text \<open>
  Conversion to a string, as a template literal does it to an interpolated value. Every
  primitive converts. An array converts by joining the conversions of its elements
  (\<open>null\<close> and \<open>undefined\<close> elements join as the empty string). An object
  converts through its \<open>toString\<close>: a decoded JSON object converts to
  \<open>[object Object]\<close> unless it has an own property \<open>toString\<close>, which then
  shadows the inherited method with a value that cannot be called, and the conversion
  raises. The text produced goes to the log or into a header and is not modelled; only
  whether the conversion raises is.
\<close>

fun printable :: "jsval \<Rightarrow> bool" where
  "printable (JArr xs) = list_all printable xs"
| "printable (JObj kvs) = (map_of kvs ''toString'' = None)"
| "printable v = True"

definition interpolate :: "jsval \<Rightarrow> error + unit" where
  "interpolate v =
     (if printable v then Inr ()
      else Inl (TypeError ''Cannot convert object to primitive value''))"

section \<open>Process environment, backend and state\<close>

text \<open>
  Everything outside the program is a parameter: the three configuration strings read
  at startup, the clock, the two axios calls and two pieces of the language runtime.
  The outside world has a state of type \<open>'w\<close> that every effect may read and change, so
  a backend can answer each call differently. An axios call either rejects (\<open>Inl\<close> of
  the rejection's \<open>error.message\<close>) or resolves (\<open>Inr\<close> of \<open>response.data\<close>);
  a request that never settles (the program sets no timeout) is outside the model.
  \<open>axios_get\<close> takes the URL, the token interpolated into the \<open>Authorization\<close> header
  and the query parameters. \<open>gt_zero_coerced\<close> is the comparison \<open>v > 0\<close> of
  ECMAScript for a string, array or object \<open>v\<close> (it parses strings and may raise);
  \<open>JSON_stringify\<close> is \<open>JSON.stringify(v, null, 2)\<close>.
\<close>

record 'w env =
  BACKEND_URL :: string
  ADMIN_EMAIL :: string
  ADMIN_PASSWORD :: string
  date_now :: "'w \<Rightarrow> int \<times> 'w"
  axios_post :: "string \<Rightarrow> jsval \<Rightarrow> 'w \<Rightarrow> (string + jsval) \<times> 'w"
  axios_get :: "string \<Rightarrow> jsval \<Rightarrow> (string \<times> jsval) list \<Rightarrow> 'w \<Rightarrow> (string + jsval) \<times> 'w"
  gt_zero_coerced :: "jsval \<Rightarrow> error + bool"
  JSON_stringify :: "jsval \<Rightarrow> string"

text \<open>
  An HTTP request the program has issued: the login exchange, or a GET with its
  endpoint and parameters.
\<close>

datatype upstream_call = LoginCall | GetCall string "(string \<times> jsval) list"

text \<open>
  The program's state: the two globals \<open>authToken\<close> and \<open>tokenExpiry\<close> (both
  \<open>null\<close> at startup; \<open>tokenExpiry\<close> is \<open>null\<close> or a number of milliseconds), the
  outside world, and the log of the requests issued so far, which the source does not
  keep and which is here to count calls.
\<close>

record 'w state =
  authToken :: jsval
  tokenExpiry :: "int option"
  calls :: "upstream_call list"
  world :: 'w

definition initial_state :: "'w \<Rightarrow> 'w state" where
  "initial_state w = \<lparr>authToken = JNull, tokenExpiry = None, calls = [], world = w\<rparr>"

section \<open>Credential cache: getAuthToken\<close>

text \<open>
  \<open>authToken && tokenExpiry && Date.now() < tokenExpiry\<close>: the clock is read only
  when both globals are truthy.
\<close>

definition token_valid :: "'w env \<Rightarrow> 'w state \<Rightarrow> bool \<times> 'w state" where
  "token_valid env s =
     (if truthy (authToken s) then
        (case tokenExpiry s of
           None \<Rightarrow> (False, s)
         | Some e \<Rightarrow>
             if e = 0 then (False, s)
             else (case date_now env (world s) of (t, w) \<Rightarrow> (t < e, s\<lparr>world := w\<rparr>)))
      else (False, s))"

definition login_body :: "'w env \<Rightarrow> jsval" where
  "login_body env =
     JObj [(''email'', JStr (ADMIN_EMAIL env)), (''password'', JStr (ADMIN_PASSWORD env))]"

definition getAuthToken :: "'w env \<Rightarrow> 'w state \<Rightarrow> (error + jsval) \<times> 'w state" where
  "getAuthToken env s =
     (case token_valid env s of
        (True, s0) \<Rightarrow> (Inr (authToken s0), s0)
      | (False, s0) \<Rightarrow>
          (case axios_post env (BACKEND_URL env @ ''/login'') (login_body env) (world s0) of
             (Inl m, w1) \<Rightarrow>
               (Inl (Error ''Failed to authenticate with backend''),
                s0\<lparr>calls := calls s0 @ [LoginCall], world := w1\<rparr>)
           | (Inr data, w1) \<Rightarrow>
               (case js_prop data ''token'' of
                  Inl e \<Rightarrow>
                    (Inl (Error ''Failed to authenticate with backend''),
                     s0\<lparr>calls := calls s0 @ [LoginCall], world := w1\<rparr>)
                | Inr tok \<Rightarrow>
                    (case date_now env w1 of
                       (t, w2) \<Rightarrow>
                         (Inr tok,
                          s0\<lparr>authToken := tok,
                             tokenExpiry := Some (t + 23 * 60 * 60 * 1000),
                             calls := calls s0 @ [LoginCall],
                             world := w2\<rparr>)))))"

section \<open>Backend client: makeBackendRequest\<close>

text \<open>
  The token is obtained outside the \<open>try\<close>, so an authentication error passes
  through as it is. Inside the \<open>try\<close> the arguments of \<open>axios.get\<close> are built
  first: \<open>Bearer ${token}\<close> converts the token to a string, and a token that does
  not convert raises before any request is made. The \<open>catch\<close> wraps every
  exception of the \<open>try\<close> in a new error.
\<close>

definition makeBackendRequest ::
  "'w env \<Rightarrow> string \<Rightarrow> (string \<times> jsval) list \<Rightarrow> 'w state \<Rightarrow> (error + jsval) \<times> 'w state" where
  "makeBackendRequest env endpoint params s =
     (case getAuthToken env s of
        (Inl e, s1) \<Rightarrow> (Inl e, s1)
      | (Inr token, s1) \<Rightarrow>
          (case interpolate token of
             Inl e \<Rightarrow> (Inl (Error (''Backend request failed: '' @ message e)), s1)
           | Inr u \<Rightarrow>
               (case axios_get env (BACKEND_URL env @ endpoint) token params (world s1) of
                  (Inl m, w) \<Rightarrow>
                    (Inl (Error (''Backend request failed: '' @ m)),
                     s1\<lparr>calls := calls s1 @ [GetCall endpoint params], world := w\<rparr>)
                | (Inr data, w) \<Rightarrow>
                    (Inr data,
                     s1\<lparr>calls := calls s1 @ [GetCall endpoint params], world := w\<rparr>))))"

section \<open>Search orchestrator\<close>

definition vector_endpoint :: string where
  "vector_endpoint = ''/api/supply/products/vector-search''"

definition products_endpoint :: string where
  "products_endpoint = ''/api/supply/products''"

text \<open>The query parameters of the three requests.\<close>

definition vector_params :: "jsval \<Rightarrow> jsval \<Rightarrow> (string \<times> jsval) list" where
  "vector_params query limit = [(''query'', query), (''limit'', limit)]"

definition listing_params :: "jsval \<Rightarrow> jsval \<Rightarrow> (string \<times> jsval) list" where
  "listing_params query limit = [(''search'', query), (''limit'', limit)]"

definition vector_search_params :: "jsval \<Rightarrow> jsval \<Rightarrow> jsval \<Rightarrow> (string \<times> jsval) list" where
  "vector_search_params query limit threshold =
     [(''query'', query), (''limit'', limit), (''threshold'', threshold)]"

text \<open>
  The object literal of a \<open>map\<close> callback: each pair is (key written, property read),
  read in source order; reading from \<open>null\<close> or \<open>undefined\<close> raises at the first one.
\<close>

definition read_props :: "jsval \<Rightarrow> (string \<times> string) list \<Rightarrow> error + (string \<times> jsval) list" where
  "read_props v pairs =
     map_raise (\<lambda>(key, src). case js_prop v src of Inl e \<Rightarrow> Inl e | Inr x \<Rightarrow> Inr (key, x)) pairs"

text \<open>The callback of the fallback branch (lines 97 to 105 of the server).\<close>

definition fallback_product :: "jsval \<Rightarrow> error + jsval" where
  "fallback_product product =
     (case read_props product
             [(''code'', ''code''), (''name'', ''name''), (''unit'', ''unit''),
              (''estimatedPrice'', ''priceEstimated''), (''description'', ''description''),
              (''type'', ''type''), (''family'', ''family'')] of
        Inl e \<Rightarrow> Inl e
      | Inr kvs \<Rightarrow> Inr (JObj kvs))"

text \<open>
  The callback of the final mapping, the same in \<open>searchProducts\<close> and
  \<open>vectorSearchProducts\<close>; the last field is \<open>product.similarity || null\<close>.
\<close>

definition final_product :: "jsval \<Rightarrow> error + jsval" where
  "final_product product =
     (case read_props product
             [(''code'', ''code''), (''name'', ''name''), (''unit'', ''unit''),
              (''estimatedPrice'', ''priceEstimated''), (''description'', ''description''),
              (''type'', ''type''), (''family'', ''family'')] of
        Inl e \<Rightarrow> Inl e
      | Inr kvs \<Rightarrow>
          (case js_prop product ''similarity'' of
             Inl e \<Rightarrow> Inl e
           | Inr sim \<Rightarrow> Inr (JObj (kvs @ [(''similarity'', js_or sim JNull)]))))"

text \<open>\<open>!results.success || results.totalFound === 0\<close>\<close>

definition needs_fallback :: "jsval \<Rightarrow> error + bool" where
  "needs_fallback results =
     (case js_prop results ''success'' of
        Inl e \<Rightarrow> Inl e
      | Inr sv \<Rightarrow>
          if \<not> truthy sv then Inr True
          else (case js_prop results ''totalFound'' of
                  Inl e \<Rightarrow> Inl e
                | Inr tf \<Rightarrow> Inr (tf = JNum 0)))"

text \<open>\<open>v > 0\<close>: numeric on the primitives, the runtime's coercion on the rest.\<close>

fun js_gt_zero :: "'w env \<Rightarrow> jsval \<Rightarrow> error + bool" where
  "js_gt_zero env (JNum r) = Inr (0 < r)"
| "js_gt_zero env (JBool b) = Inr b"
| "js_gt_zero env JNull = Inr False"
| "js_gt_zero env JUndefined = Inr False"
| "js_gt_zero env v = gt_zero_coerced env v"

text \<open>
  Lines 92 to 107: \<open>results\<close> is replaced when \<open>nameResults && nameResults.length > 0\<close>,
  and stays the vector-search body otherwise.
\<close>

definition fallback_results :: "'w env \<Rightarrow> jsval \<Rightarrow> jsval \<Rightarrow> jsval \<Rightarrow> error + jsval" where
  "fallback_results env query nameResults results =
     (if \<not> truthy nameResults then Inr results
      else
        (case js_prop nameResults ''length'' of
           Inl e \<Rightarrow> Inl e
         | Inr len \<Rightarrow>
             (case js_gt_zero env len of
                Inl e \<Rightarrow> Inl e
              | Inr False \<Rightarrow> Inr results
              | Inr True \<Rightarrow>
                  (case js_prop nameResults ''length'' of
                     Inl e \<Rightarrow> Inl e
                   | Inr n \<Rightarrow>
                       (case js_map ''nameResults'' fallback_product nameResults of
                          Inl e \<Rightarrow> Inl e
                        | Inr ps \<Rightarrow>
                            Inr (JObj [(''success'', JBool True), (''query'', query),
                                       (''totalFound'', n), (''products'', ps)]))))))"

text \<open>The \<open>return\<close> of lines 110 to 124.\<close>

definition literal_result :: "jsval \<Rightarrow> jsval \<Rightarrow> error + jsval" where
  "literal_result query results =
     (case js_prop results ''totalFound'' of
        Inl e \<Rightarrow> Inl e
      | Inr tf \<Rightarrow>
          (case js_prop results ''products'' of
             Inl e \<Rightarrow> Inl e
           | Inr ps \<Rightarrow>
               (case js_map ''(results.products || [])'' final_product (js_or ps (JArr [])) of
                  Inl e \<Rightarrow> Inl e
                | Inr mapped \<Rightarrow>
                    Inr (JObj [(''success'', JBool True), (''query'', query),
                               (''totalFound'', js_or tf (JNum 0)), (''products'', mapped)]))))"

text \<open>
  The \<open>try\<close> block of \<open>searchProducts\<close>. Its first statement logs
  \<open>"${query}"\<close>, which converts the query to a string and raises, before any
  request, for a query that does not convert.
\<close>

definition searchProducts_try ::
  "'w env \<Rightarrow> jsval \<Rightarrow> jsval \<Rightarrow> 'w state \<Rightarrow> (error + jsval) \<times> 'w state" where
  "searchProducts_try env query limit s =
     (case interpolate query of
        Inl e \<Rightarrow> (Inl e, s)
      | Inr u \<Rightarrow>
     (case makeBackendRequest env vector_endpoint (vector_params query limit) s of
        (Inl e, s1) \<Rightarrow> (Inl e, s1)
      | (Inr results, s1) \<Rightarrow>
          (case needs_fallback results of
             Inl e \<Rightarrow> (Inl e, s1)
           | Inr False \<Rightarrow> (literal_result query results, s1)
           | Inr True \<Rightarrow>
               (case makeBackendRequest env products_endpoint
                       (listing_params query limit) s1 of
                  (Inl e, s2) \<Rightarrow> (Inl e, s2)
                | (Inr nameResults, s2) \<Rightarrow>
                    (case fallback_results env query nameResults results of
                       Inl e \<Rightarrow> (Inl e, s2)
                     | Inr results' \<Rightarrow> (literal_result query results', s2))))))"

text \<open>The object both \<open>catch\<close> blocks return.\<close>

definition failure_envelope :: "error \<Rightarrow> jsval \<Rightarrow> jsval" where
  "failure_envelope e query =
     JObj [(''success'', JBool False), (''error'', JStr (message e)), (''query'', query),
           (''totalFound'', JNum 0), (''products'', JArr [])]"

text \<open>
  An \<open>async\<close> function resolves (\<open>Inr\<close>) or rejects (\<open>Inl\<close>); the \<open>catch\<close> turns
  every exception of the \<open>try\<close> block into a resolved value.
\<close>

definition searchProducts ::
  "'w env \<Rightarrow> jsval \<Rightarrow> jsval \<Rightarrow> 'w state \<Rightarrow> (error + jsval) \<times> 'w state" where
  "searchProducts env query limit s =
     (case searchProducts_try env query limit s of
        (Inl e, s') \<Rightarrow> (Inr (failure_envelope e query), s')
      | (Inr r, s') \<Rightarrow> (Inr r, s'))"

text \<open>The \<open>return\<close> of lines 150 to 166.\<close>

definition vector_result :: "jsval \<Rightarrow> jsval \<Rightarrow> jsval \<Rightarrow> error + jsval" where
  "vector_result query threshold results =
     (case js_prop results ''success'' of
        Inl e \<Rightarrow> Inl e
      | Inr sv \<Rightarrow>
      (case js_prop results ''totalFound'' of
        Inl e \<Rightarrow> Inl e
      | Inr tf \<Rightarrow>
      (case js_prop results ''threshold'' of
        Inl e \<Rightarrow> Inl e
      | Inr th \<Rightarrow>
      (case js_prop results ''products'' of
        Inl e \<Rightarrow> Inl e
      | Inr ps \<Rightarrow>
      (case js_map ''(results.products || [])'' final_product (js_or ps (JArr [])) of
        Inl e \<Rightarrow> Inl e
      | Inr mapped \<Rightarrow>
      (case js_prop results ''cacheInfo'' of
        Inl e \<Rightarrow> Inl e
      | Inr ci \<Rightarrow>
          Inr (JObj [(''success'', sv), (''query'', query),
                     (''totalFound'', js_or tf (JNum 0)),
                     (''threshold'', js_or th threshold),
                     (''products'', mapped),
                     (''cacheInfo'', js_or ci JNull)])))))))"

text \<open>
  The \<open>try\<close> block of \<open>vectorSearchProducts\<close>, which begins with the same log
  line.
\<close>

definition vectorSearchProducts_try ::
  "'w env \<Rightarrow> jsval \<Rightarrow> jsval \<Rightarrow> jsval \<Rightarrow> 'w state \<Rightarrow> (error + jsval) \<times> 'w state" where
  "vectorSearchProducts_try env query limit threshold s =
     (case interpolate query of
        Inl e \<Rightarrow> (Inl e, s)
      | Inr u \<Rightarrow>
     (case makeBackendRequest env vector_endpoint
             (vector_search_params query limit threshold) s of
        (Inl e, s1) \<Rightarrow> (Inl e, s1)
      | (Inr results, s1) \<Rightarrow> (vector_result query threshold results, s1)))"

definition vectorSearchProducts ::
  "'w env \<Rightarrow> jsval \<Rightarrow> jsval \<Rightarrow> jsval \<Rightarrow> 'w state \<Rightarrow> (error + jsval) \<times> 'w state" where
  "vectorSearchProducts env query limit threshold s =
     (case vectorSearchProducts_try env query limit threshold s of
        (Inl e, s') \<Rightarrow> (Inr (failure_envelope e query), s')
      | (Inr r, s') \<Rightarrow> (Inr r, s'))"

section \<open>Tool gateway: the CallToolRequest handler\<close>

text \<open>
  The handler's output: the text of its single content item and the \<open>isError\<close> flag
  (\<open>False\<close> where the source leaves the key out).
\<close>

record tool_output =
  content_text :: string
  isError :: bool

text \<open>
  \<open>const { query, limit = 10 } = args\<close> reads one property of \<open>args\<close> per name.
  Destructuring \<open>undefined\<close> or \<open>null\<close> raises, naming the first property of the
  pattern (\<open>query\<close> in both cases of the switch); a default applies to \<open>undefined\<close> only.
\<close>

definition destructure :: "jsval \<Rightarrow> string \<Rightarrow> error + jsval" where
  "destructure args k =
     (if args = JUndefined \<or> args = JNull then
        Inl (TypeError (''Cannot destructure property '' @ quoted ''query'' @ '' of ''
                        @ quoted ''args'' @ '' as it is ''
                        @ (if args = JNull then ''null'' else ''undefined'') @ ''.''))
      else js_prop args k)"

definition with_default :: "jsval \<Rightarrow> jsval \<Rightarrow> jsval" where
  "with_default v d = (if v = JUndefined then d else v)"

definition text_output :: "'w env \<Rightarrow> jsval \<Rightarrow> tool_output" where
  "text_output env v = \<lparr>content_text = JSON_stringify env v, isError = False\<rparr>"

text \<open>The object the handler's \<open>catch\<close> serialises.\<close>

definition error_body :: "error \<Rightarrow> jsval" where
  "error_body e = JObj [(''success'', JBool False), (''error'', JStr (message e))]"

text \<open>
  The \<open>try\<close> block of the handler: the \<open>switch\<close> on the tool name. The
  handler is the only caller of the two search functions and passes every argument, so
  their own parameter defaults (the same 10 and 0.7) never apply.
\<close>

definition CallTool_try ::
  "'w env \<Rightarrow> string \<Rightarrow> jsval \<Rightarrow> 'w state \<Rightarrow> (error + tool_output) \<times> 'w state" where
  "CallTool_try env name args s =
     (if name = ''products.search'' then
        (case destructure args ''query'' of
           Inl e \<Rightarrow> (Inl e, s)
         | Inr query \<Rightarrow>
        (case destructure args ''limit'' of
           Inl e \<Rightarrow> (Inl e, s)
         | Inr limit \<Rightarrow>
        (case searchProducts env query (with_default limit (JNum 10)) s of
           (Inl e, s') \<Rightarrow> (Inl e, s')
         | (Inr result, s') \<Rightarrow> (Inr (text_output env result), s'))))
      else if name = ''products.vectorSearch'' then
        (case destructure args ''query'' of
           Inl e \<Rightarrow> (Inl e, s)
         | Inr query \<Rightarrow>
        (case destructure args ''limit'' of
           Inl e \<Rightarrow> (Inl e, s)
         | Inr limit \<Rightarrow>
        (case destructure args ''threshold'' of
           Inl e \<Rightarrow> (Inl e, s)
         | Inr threshold \<Rightarrow>
        (case vectorSearchProducts env query (with_default limit (JNum 10))
                (with_default threshold (JNum (7 / 10))) s of
           (Inl e, s') \<Rightarrow> (Inl e, s')
         | (Inr result, s') \<Rightarrow> (Inr (text_output env result), s')))))
      else (Inl (Error (''Unknown tool: '' @ name)), s))"

definition CallTool_handler ::
  "'w env \<Rightarrow> string \<Rightarrow> jsval \<Rightarrow> 'w state \<Rightarrow> (error + tool_output) \<times> 'w state" where
  "CallTool_handler env name args s =
     (case CallTool_try env name args s of
        (Inl e, s') \<Rightarrow>
          (Inr \<lparr>content_text = JSON_stringify env (error_body e), isError = True\<rparr>, s')
      | (Inr out, s') \<Rightarrow> (Inr out, s'))"

section \<open>Counting upstream calls\<close>

fun is_get_to :: "string \<Rightarrow> upstream_call \<Rightarrow> bool" where
  "is_get_to ep (GetCall e ps) = (e = ep)"
| "is_get_to ep LoginCall = False"

fun is_get :: "upstream_call \<Rightarrow> bool" where
  "is_get (GetCall e ps) = True"
| "is_get LoginCall = False"

definition gets_to :: "string \<Rightarrow> upstream_call list \<Rightarrow> nat" where
  "gets_to ep cs = length (filter (is_get_to ep) cs)"

definition gets :: "upstream_call list \<Rightarrow> nat" where
  "gets cs = length (filter is_get cs)"

definition logins :: "upstream_call list \<Rightarrow> nat" where
  "logins cs = length (filter (\<lambda>c. c = LoginCall) cs)"

text \<open>The requests issued between state \<open>s\<close> and a later state \<open>s'\<close>.\<close>

definition issued :: "'w state \<Rightarrow> 'w state \<Rightarrow> upstream_call list" where
  "issued s s' = drop (length (calls s)) (calls s')"

text \<open>What one \<open>getAuthToken\<close> and one \<open>makeBackendRequest\<close> add to the log.\<close>

definition login_calls :: "'w env \<Rightarrow> 'w state \<Rightarrow> upstream_call list" where
  "login_calls env s = (if fst (token_valid env s) then [] else [LoginCall])"

text \<open>
  A backend request gets as far as its GET: a token is obtained and it converts to a
  string.
\<close>

definition request_sent :: "'w env \<Rightarrow> 'w state \<Rightarrow> bool" where
  "request_sent env s =
     (case fst (getAuthToken env s) of Inl e \<Rightarrow> False | Inr tok \<Rightarrow> printable tok)"

definition request_calls ::
  "'w env \<Rightarrow> string \<Rightarrow> (string \<times> jsval) list \<Rightarrow> 'w state \<Rightarrow> upstream_call list" where
  "request_calls env endpoint params s =
     login_calls env s @ (if request_sent env s then [GetCall endpoint params] else [])"

text \<open>
  \<open>searchProducts\<close> enters its fallback branch: the query converts to a string, the
  vector-search request returned a body, and the test of line 83 on that body is true.
\<close>

definition fallback_begun :: "'w env \<Rightarrow> jsval \<Rightarrow> jsval \<Rightarrow> 'w state \<Rightarrow> bool" where
  "fallback_begun env query limit s =
     (printable query \<and>
      (case fst (makeBackendRequest env vector_endpoint (vector_params query limit) s) of
         Inl e \<Rightarrow> False
       | Inr results \<Rightarrow> needs_fallback results = Inr True))"

text \<open>The fallback branch is entered and its request gets as far as its GET.\<close>

definition fallback_due :: "'w env \<Rightarrow> jsval \<Rightarrow> jsval \<Rightarrow> 'w state \<Rightarrow> bool" where
  "fallback_due env query limit s =
     (fallback_begun env query limit s \<and>
      request_sent env (snd (makeBackendRequest env vector_endpoint (vector_params query limit) s)))"

text \<open>A request carries the caller's \<open>limit\<close> (a login exchange has no parameters).\<close>

fun carries_limit :: "jsval \<Rightarrow> upstream_call \<Rightarrow> bool" where
  "carries_limit limit (GetCall ep ps) = (map_of ps ''limit'' = Some limit)"
| "carries_limit limit LoginCall = True"

section \<open>Shapes of values and of backend bodies\<close>

text \<open>Own property \<open>k\<close> of an object; \<open>None\<close> for a missing key and for a non-object.\<close>

definition own :: "jsval \<Rightarrow> string \<Rightarrow> jsval option" where
  "own v k = (case v of JObj kvs \<Rightarrow> map_of kvs k | _ \<Rightarrow> None)"

definition has :: "jsval \<Rightarrow> string \<Rightarrow> (jsval \<Rightarrow> bool) \<Rightarrow> bool" where
  "has v k P = (case own v k of Some x \<Rightarrow> P x | None \<Rightarrow> False)"

fun is_boolean :: "jsval \<Rightarrow> bool" where
  "is_boolean (JBool b) = True"
| "is_boolean v = False"

fun is_string :: "jsval \<Rightarrow> bool" where
  "is_string (JStr s) = True"
| "is_string v = False"

fun is_array :: "jsval \<Rightarrow> bool" where
  "is_array (JArr xs) = True"
| "is_array v = False"

text \<open>An integer that is at least 0.\<close>

fun is_count :: "jsval \<Rightarrow> bool" where
  "is_count (JNum r) = (0 \<le> r \<and> of_int \<lfloor>r\<rfloor> = r)"
| "is_count v = False"

text \<open>
  The SearchResult shape of the specification: a boolean \<open>success\<close>, a string
  \<open>query\<close>, an integer \<open>totalFound\<close> that is at least 0, a \<open>products\<close> array, and a
  string \<open>error\<close> when \<open>success\<close> is false.
\<close>

definition well_formed_SearchResult :: "jsval \<Rightarrow> bool" where
  "well_formed_SearchResult v =
     (has v ''success'' is_boolean \<and> has v ''query'' is_string \<and>
      has v ''totalFound'' is_count \<and> has v ''products'' is_array \<and>
      (own v ''success'' = Some (JBool False) \<longrightarrow> has v ''error'' is_string))"

text \<open>
  What a vector-search body must hold for the server's result to be well formed, since
  the server forwards these fields unchecked: an integer \<open>totalFound\<close> that is at
  least 0, and \<open>success\<close> true (a forwarded \<open>success: false\<close> comes without an
  \<open>error\<close>).
\<close>

definition counted_body :: "jsval \<Rightarrow> bool" where
  "counted_body r = has r ''totalFound'' is_count"

definition successful_body :: "jsval \<Rightarrow> bool" where
  "successful_body r = (own r ''success'' = Some (JBool True))"

text \<open>Every body the backend returns from the vector-search endpoint satisfies \<open>P\<close>.\<close>

definition vector_bodies :: "'w env \<Rightarrow> (jsval \<Rightarrow> bool) \<Rightarrow> bool" where
  "vector_bodies env P =
     (\<forall>token params w r w'.
        axios_get env (BACKEND_URL env @ vector_endpoint) token params w = (Inr r, w')
        \<longrightarrow> P r)"

text \<open>The products of a resolved search result.\<close>

definition result_products :: "error + jsval \<Rightarrow> jsval list" where
  "result_products r =
     (case r of
        Inl e \<Rightarrow> []
      | Inr v \<Rightarrow> (case own v ''products'' of Some (JArr ps) \<Rightarrow> ps | _ \<Rightarrow> []))"

text \<open>
  The products a backend body holds: those of a vector-search envelope (its
  \<open>products\<close> array) and those of a raw listing (the array itself).
\<close>

definition envelope_products :: "jsval \<Rightarrow> jsval list" where
  "envelope_products r =
     (case r of
        JObj kvs \<Rightarrow> (case map_of kvs ''products'' of Some (JArr xs) \<Rightarrow> xs | _ \<Rightarrow> [])
      | _ \<Rightarrow> [])"

definition listing_products :: "jsval \<Rightarrow> jsval list" where
  "listing_products r = (case r of JArr xs \<Rightarrow> xs | _ \<Rightarrow> [])"

text \<open>
  The products of the body that answers a literal search: the vector-search body's,
  unless the fallback branch is entered and its listing is a non-empty array, which
  then replaces them.
\<close>

definition answering_products :: "'w env \<Rightarrow> jsval \<Rightarrow> jsval \<Rightarrow> 'w state \<Rightarrow> jsval list" where
  "answering_products env query limit s =
     (case makeBackendRequest env vector_endpoint (vector_params query limit) s of
        (Inl e, s1) \<Rightarrow> []
      | (Inr results, s1) \<Rightarrow>
          if needs_fallback results = Inr True then
            (case makeBackendRequest env products_endpoint (listing_params query limit) s1 of
               (Inl e, s2) \<Rightarrow> []
             | (Inr nameResults, s2) \<Rightarrow>
                 if listing_products nameResults = [] then envelope_products results
                 else listing_products nameResults)
          else envelope_products results)"

text \<open>
  The backend answers the two requests of this search, whenever and with whatever token
  they arrive, with at most \<open>b\<close> products.
\<close>

definition answers_within :: "'w env \<Rightarrow> jsval \<Rightarrow> jsval \<Rightarrow> rat \<Rightarrow> bool" where
  "answers_within env query limit b =
     ((\<forall>token w r w'.
         axios_get env (BACKEND_URL env @ vector_endpoint) token (vector_params query limit) w
           = (Inr r, w')
         \<longrightarrow> of_nat (length (envelope_products r)) \<le> b) \<and>
      (\<forall>token w r w'.
         axios_get env (BACKEND_URL env @ products_endpoint) token (listing_params query limit) w
           = (Inr r, w')
         \<longrightarrow> of_nat (length (listing_products r)) \<le> b))"

text \<open>A backend whose every HTTP attempt raises a transport error.\<close>

definition always_raises :: "'w env \<Rightarrow> bool" where
  "always_raises env =
     ((\<forall>url body w. isl (fst (axios_post env url body w))) \<and>
      (\<forall>url token params w. isl (fst (axios_get env url token params w))))"

section \<open>Stub backends\<close>

text \<open>
  A backend that answers the login exchange, the vector-search endpoint and the listing
  endpoint with three fixed outcomes. Its world is the clock, which stands still. The
  bodies used with it hold no value that reaches \<open>gt_zero_coerced\<close>, and its
  serialiser is a placeholder: no property below depends on the text it produces.
\<close>

definition stub_backend :: "(string + jsval) \<Rightarrow> (string + jsval) \<Rightarrow> (string + jsval) \<Rightarrow> int env" where
  "stub_backend login vector listing =
     \<lparr>BACKEND_URL = ''http://192.168.37.1:3100'',
      ADMIN_EMAIL = ''admin@ulbra.edu.br'',
      ADMIN_PASSWORD = ''123456'',
      date_now = (\<lambda>w. (w, w)),
      axios_post = (\<lambda>url body w. (login, w)),
      axios_get = (\<lambda>url token params w.
         (if url = ''http://192.168.37.1:3100/api/supply/products/vector-search''
          then vector else listing, w)),
      gt_zero_coerced = (\<lambda>v. Inr False),
      JSON_stringify = (\<lambda>v. ''{}'')\<rparr>"

definition token_body :: jsval where
  "token_body = JObj [(''token'', JStr ''eyJhbGciOi'')]"

text \<open>Bodies for the stub backend.\<close>

definition empty_vector_body :: jsval where
  "empty_vector_body =
     JObj [(''success'', JBool True), (''totalFound'', JNum 0), (''products'', JArr [])]"

definition listed_product :: jsval where
  "listed_product =
     JObj [(''code'', JNum 12345), (''name'', JStr ''X''), (''unit'', JStr ''UN''),
           (''priceEstimated'', JNum (5 / 2))]"

text \<open>Login succeeds, vector search finds nothing, the listing holds one product.\<close>

definition fallback_stub :: "int env" where
  "fallback_stub =
     stub_backend (Inr token_body) (Inr empty_vector_body) (Inr (JArr [listed_product]))"

text \<open>Login succeeds, the vector-search request times out.\<close>

definition timeout_stub :: "int env" where
  "timeout_stub =
     stub_backend (Inr token_body) (Inl ''timeout of 5000ms exceeded'')
       (Inr (JArr [listed_product]))"

text \<open>The backend is unreachable.\<close>

definition down_stub :: "int env" where
  "down_stub =
     stub_backend (Inl ''connect ECONNREFUSED 192.168.37.1:3100'')
       (Inl ''connect ECONNREFUSED 192.168.37.1:3100'')
       (Inl ''connect ECONNREFUSED 192.168.37.1:3100'')"

text \<open>Login succeeds, vector search finds nothing, the listing answers 500.\<close>

definition listing_down_stub :: "int env" where
  "listing_down_stub =
     stub_backend (Inr token_body) (Inr empty_vector_body) (Inl ''Request failed with status code 500'')"

text \<open>Login succeeds, the vector-search endpoint reports a failure of its own.\<close>

definition refusing_stub :: "int env" where
  "refusing_stub =
     stub_backend (Inr token_body)
       (Inr (JObj [(''success'', JBool False), (''message'', JStr ''Embedding service unavailable'')]))
       (Inr (JArr []))"

text \<open>Login succeeds; the vector-search endpoint returns two products whatever the limit.\<close>

definition overfull_stub :: "int env" where
  "overfull_stub =
     stub_backend (Inr token_body)
       (Inr (JObj [(''success'', JBool True), (''totalFound'', JNum 2),
                   (''products'',
                    JArr [JObj [(''code'', JNum 1), (''name'', JStr ''SERINGA DESCARTAVEL''),
                                (''unit'', JStr ''UN''), (''priceEstimated'', JNum (5 / 2)),
                                (''similarity'', JNum (19 / 20))],
                          JObj [(''code'', JNum 2), (''name'', JStr ''SERINGA LUER''),
                                (''unit'', JStr ''UN''), (''priceEstimated'', JNum 3),
                                (''similarity'', JNum (9 / 10))]])]))
       (Inr (JArr []))"

text \<open>Login succeeds; the vector-search body reports the threshold 0.\<close>

definition zero_threshold_body :: jsval where
  "zero_threshold_body =
     JObj [(''success'', JBool True), (''totalFound'', JNum 1), (''threshold'', JNum 0),
           (''products'', JArr []),
           (''cacheInfo'', JObj [(''hit'', JBool True), (''size'', JNum 3)])]"

definition zero_threshold_stub :: "int env" where
  "zero_threshold_stub = stub_backend (Inr token_body) (Inr zero_threshold_body) (Inr (JArr []))"

text \<open>The login endpoint answers 200 with a body that holds no token; every GET is refused.\<close>

definition no_token_stub :: "int env" where
  "no_token_stub =
     stub_backend (Inr (JObj [(''message'', JStr ''ok'')]))
       (Inl ''Request failed with status code 401'')
       (Inl ''Request failed with status code 401'')"

text \<open>The login endpoint answers with a token that does not convert to a string.\<close>

definition unprintable_token_stub :: "int env" where
  "unprintable_token_stub =
     stub_backend (Inr (JObj [(''token'', JObj [(''toString'', JNum 1)])]))
       (Inr empty_vector_body) (Inr (JArr [listed_product]))"

text \<open>A query that does not convert to a string.\<close>

definition unprintable_query :: jsval where
  "unprintable_query = JObj [(''toString'', JNum 5)]"


text \<open>A state whose cached token expired at time 500, at time 1000.\<close>

definition expired_state :: "int state" where
  "expired_state =
     \<lparr>authToken = JStr ''eyJhbGciOi'', tokenExpiry = Some 500, calls = [], world = 1000\<rparr>"

text \<open>
  A backend that honours the limit it is sent: it holds three products and answers
  either endpoint with the first \<open>limit\<close> of them.
\<close>

definition catalogue :: "jsval list" where
  "catalogue =
     [JObj [(''code'', JNum 1), (''name'', JStr ''SERINGA DESCARTAVEL''), (''unit'', JStr ''UN''),
            (''priceEstimated'', JNum (5 / 2))],
      JObj [(''code'', JNum 2), (''name'', JStr ''SERINGA LUER''), (''unit'', JStr ''UN''),
            (''priceEstimated'', JNum 3)],
      JObj [(''code'', JNum 3), (''name'', JStr ''SERINGA INSULINA''), (''unit'', JStr ''UN''),
            (''priceEstimated'', JNum 4)]]"

definition limit_of :: "(string \<times> jsval) list \<Rightarrow> nat" where
  "limit_of params = (case map_of params ''limit'' of Some (JNum n) \<Rightarrow> nat \<lfloor>n\<rfloor> | _ \<Rightarrow> 10)"

definition honouring_stub :: "int env" where
  "honouring_stub =
     \<lparr>BACKEND_URL = ''http://192.168.37.1:3100'',
      ADMIN_EMAIL = ''admin@ulbra.edu.br'',
      ADMIN_PASSWORD = ''123456'',
      date_now = (\<lambda>w. (w, w)),
      axios_post = (\<lambda>url body w. (Inr token_body, w)),
      axios_get = (\<lambda>url token params w.
         (if url = ''http://192.168.37.1:3100/api/supply/products/vector-search''
          then Inr (JObj [(''success'', JBool True), (''totalFound'', JNum 3),
                          (''products'', JArr (take (limit_of params) catalogue))])
          else Inr (JArr (take (limit_of params) catalogue)), w)),
      gt_zero_coerced = (\<lambda>v. Inr False),
      JSON_stringify = (\<lambda>v. ''{}'')\<rparr>"

section \<open>Properties\<close>

subsection \<open>The request log\<close>

lemma token_valid_keeps:
  "token_valid env s = (b, s0) \<Longrightarrow>
     authToken s0 = authToken s \<and> tokenExpiry s0 = tokenExpiry s \<and> calls s0 = calls s"
  by (auto simp: token_valid_def split: if_splits option.splits prod.splits)

lemma getAuthToken_calls:
  "getAuthToken env s = (r, s') \<Longrightarrow> calls s' = calls s @ login_calls env s"
  by (auto simp: getAuthToken_def login_calls_def dest: token_valid_keeps
           split: prod.splits sum.splits bool.splits)

lemma makeBackendRequest_calls:
  "makeBackendRequest env endpoint params s = (r, s') \<Longrightarrow>
     calls s' = calls s @ request_calls env endpoint params s"
  by (auto simp: makeBackendRequest_def request_calls_def request_sent_def interpolate_def
           dest: getAuthToken_calls split: prod.splits sum.splits if_splits)

lemma searchProducts_try_unprintable:
  "\<not> printable query \<Longrightarrow>
     searchProducts_try env query limit s =
       (Inl (TypeError ''Cannot convert object to primitive value''), s)"
  by (simp add: searchProducts_try_def interpolate_def)

lemma vectorSearchProducts_try_unprintable:
  "\<not> printable query \<Longrightarrow>
     vectorSearchProducts_try env query limit threshold s =
       (Inl (TypeError ''Cannot convert object to primitive value''), s)"
  by (simp add: vectorSearchProducts_try_def interpolate_def)

lemma searchProducts_try_Inr_printable:
  "searchProducts_try env query limit s = (Inr v, s') \<Longrightarrow> printable query"
  by (rule ccontr) (simp add: searchProducts_try_unprintable)

lemma vectorSearchProducts_try_Inr_printable:
  "vectorSearchProducts_try env query limit threshold s = (Inr v, s') \<Longrightarrow> printable query"
  by (rule ccontr) (simp add: vectorSearchProducts_try_unprintable)

lemma searchProducts_try_calls:
  assumes "searchProducts_try env query limit s = (r, s')"
  shows "calls s' = calls s @
           (if printable query
            then request_calls env vector_endpoint (vector_params query limit) s else []) @
           (if fallback_begun env query limit s
            then request_calls env products_endpoint (listing_params query limit)
                   (snd (makeBackendRequest env vector_endpoint (vector_params query limit) s))
            else [])"
proof (cases "printable query")
  case False
  with assms show ?thesis
    by (simp add: searchProducts_try_unprintable fallback_begun_def)
next
  case p: True
  show ?thesis
  proof (cases "makeBackendRequest env vector_endpoint (vector_params query limit) s")
    case (Pair r1 s1)
    note first = makeBackendRequest_calls [OF Pair]
    show ?thesis
    proof (cases r1)
      case (Inl e)
      with Pair assms first p show ?thesis
        by (auto simp: searchProducts_try_def interpolate_def fallback_begun_def)
    next
      case (Inr results)
      show ?thesis
      proof (cases "needs_fallback results = Inr True")
        case False
        with Pair Inr assms first p show ?thesis
          by (auto simp: searchProducts_try_def interpolate_def fallback_begun_def
                   split: sum.splits bool.splits)
      next
        case True
        obtain r2 s2 where second:
          "makeBackendRequest env products_endpoint (listing_params query limit) s1 = (r2, s2)"
          by (cases "makeBackendRequest env products_endpoint (listing_params query limit) s1")
        from assms Pair Inr True second p have "s' = s2"
          by (auto simp: searchProducts_try_def interpolate_def split: sum.splits)
        with makeBackendRequest_calls [OF second] first Pair Inr True p show ?thesis
          by (simp add: fallback_begun_def)
      qed
    qed
  qed
qed

lemma searchProducts_state:
  "snd (searchProducts env query limit s) = snd (searchProducts_try env query limit s)"
  by (simp add: searchProducts_def split: prod.splits sum.splits)

lemma endpoints_differ: "vector_endpoint \<noteq> products_endpoint"
  by (simp add: vector_endpoint_def products_endpoint_def)

lemma request_calls_count:
  "gets_to ep (request_calls env ep' ps s) = (if ep = ep' \<and> request_sent env s then 1 else 0)"
  "gets (request_calls env ep' ps s) = (if request_sent env s then 1 else 0)"
  "logins (request_calls env ep' ps s) \<le> 1"
  by (simp_all add: request_calls_def login_calls_def gets_to_def gets_def logins_def)

lemma count_append:
  "gets_to ep (xs @ ys) = gets_to ep xs + gets_to ep ys"
  "gets (xs @ ys) = gets xs + gets ys"
  "logins (xs @ ys) = logins xs + logins ys"
  "gets_to ep [] = 0"
  "gets [] = 0"
  "logins [] = 0"
  by (simp_all add: gets_to_def gets_def logins_def)

lemma js_prop_readable:
  "js_prop r k = Inr x \<Longrightarrow> \<exists>y. js_prop r k' = Inr y"
  by (cases r) auto

lemma needs_fallback_iff:
  "needs_fallback results = Inr True \<longleftrightarrow>
     (\<exists>sv tf. js_prop results ''success'' = Inr sv \<and> js_prop results ''totalFound'' = Inr tf \<and>
        (\<not> truthy sv \<or> tf = JNum 0))"
proof (cases "js_prop results ''success''")
  case (Inl e)
  then show ?thesis by (simp add: needs_fallback_def)
next
  case (Inr sv)
  from js_prop_readable [OF this] obtain tf where "js_prop results ''totalFound'' = Inr tf"
    by blast
  with Inr show ?thesis by (simp add: needs_fallback_def)
qed

lemma request_sent_iff:
  "request_sent env s \<longleftrightarrow> (\<exists>tok s1. getAuthToken env s = (Inr tok, s1) \<and> printable tok)"
  by (cases "getAuthToken env s") (auto simp: request_sent_def split: sum.splits)

lemmas run_defs =
  searchProducts_def searchProducts_try_def makeBackendRequest_def getAuthToken_def
  token_valid_def login_body_def stub_backend_def initial_state_def token_body_def
  vector_endpoint_def products_endpoint_def needs_fallback_def fallback_results_def
  literal_result_def final_product_def fallback_product_def read_props_def js_or_def
  failure_envelope_def vectorSearchProducts_def vectorSearchProducts_try_def vector_result_def
  vector_params_def listing_params_def vector_search_params_def empty_vector_body_def
  listed_product_def fallback_stub_def timeout_stub_def interpolate_def

subsection \<open>Upstream calls of the literal search\<close>

text \<open>
  Claim C1, as the code has it. A request gets as far as its GET when a token is
  obtained and converts to a string. \<open>searchProducts\<close> issues the vector-search GET
  once when the query converts to a string and its request gets that far, and not at
  all otherwise. It issues the listing GET, once, exactly when the vector-search request
  returned a body whose \<open>success\<close> is falsy or whose \<open>totalFound\<close> is \<open>0\<close> and
  the second request gets as far as its GET; after a vector-search request that raised
  it issues none. It never issues more than two GETs, nor more than two login
  exchanges.
\<close>

theorem searchProducts_upstream_calls:
  assumes "searchProducts env query limit s = (r, s')"
  shows "calls s' = calls s @ issued s s'
       \<and> gets_to vector_endpoint (issued s s')
           = (if printable query \<and> request_sent env s then 1 else 0)
       \<and> gets_to products_endpoint (issued s s') = (if fallback_due env query limit s then 1 else 0)
       \<and> (isl (fst (makeBackendRequest env vector_endpoint (vector_params query limit) s))
            \<longrightarrow> gets_to products_endpoint (issued s s') = 0)
       \<and> (fallback_begun env query limit s \<longleftrightarrow>
            printable query \<and>
            (\<exists>results sv tf.
               fst (makeBackendRequest env vector_endpoint (vector_params query limit) s)
                 = Inr results \<and>
               js_prop results ''success'' = Inr sv \<and> js_prop results ''totalFound'' = Inr tf \<and>
               (\<not> truthy sv \<or> tf = JNum 0)))
       \<and> (request_sent env s \<longleftrightarrow>
            (\<exists>tok s1. getAuthToken env s = (Inr tok, s1) \<and> printable tok))
       \<and> gets (issued s s') \<le> 2
       \<and> logins (issued s s') \<le> 2"
proof -
  let ?s1 = "snd (makeBackendRequest env vector_endpoint (vector_params query limit) s)"
  let ?new = "(if printable query
            then request_calls env vector_endpoint (vector_params query limit) s else []) @
           (if fallback_begun env query limit s
            then request_calls env products_endpoint (listing_params query limit) ?s1
            else [])"
  obtain r0 where "searchProducts_try env query limit s = (r0, s')"
    using assms searchProducts_state [of env query limit s]
    by (cases "searchProducts_try env query limit s") simp
  then have trace: "calls s' = calls s @ ?new"
    by (rule searchProducts_try_calls)
  then have new: "issued s s' = ?new"
    by (simp add: issued_def)
  have l1: "logins (request_calls env vector_endpoint (vector_params query limit) s) \<le> 1"
    and l2: "logins (request_calls env products_endpoint (listing_params query limit) ?s1) \<le> 1"
    by (rule request_calls_count)+
  have "logins ?new \<le> 2"
    using l1 l2 by (simp add: count_append logins_def)
  moreover have "gets ?new \<le> 2"
    by (simp add: count_append request_calls_count)
  moreover have "gets_to vector_endpoint ?new
      = (if printable query \<and> request_sent env s then 1 else 0)"
    using endpoints_differ by (simp add: count_append request_calls_count)
  moreover have due:
    "gets_to products_endpoint ?new = (if fallback_due env query limit s then 1 else 0)"
    using endpoints_differ by (auto simp: count_append request_calls_count fallback_due_def)
  moreover have "isl (fst (makeBackendRequest env vector_endpoint (vector_params query limit) s))
      \<longrightarrow> gets_to products_endpoint ?new = 0"
    unfolding due by (auto simp: fallback_due_def fallback_begun_def isl_def)
  moreover have "fallback_begun env query limit s \<longleftrightarrow>
            printable query \<and>
            (\<exists>results sv tf.
               fst (makeBackendRequest env vector_endpoint (vector_params query limit) s)
                 = Inr results \<and>
               js_prop results ''success'' = Inr sv \<and> js_prop results ''totalFound'' = Inr tf \<and>
               (\<not> truthy sv \<or> tf = JNum 0))"
    by (cases "fst (makeBackendRequest env vector_endpoint (vector_params query limit) s)")
       (simp_all add: fallback_begun_def needs_fallback_iff)
  moreover note request_sent_iff [of env s]
  ultimately show ?thesis
    using trace new by simp
qed

theorem searchProducts_upstream_calls_witness:
  "gets_to vector_endpoint
     (issued (initial_state 1000)
        (snd (searchProducts fallback_stub (JStr ''X'') (JNum 10) (initial_state 1000)))) = 1
   \<and> gets_to products_endpoint
     (issued (initial_state 1000)
        (snd (searchProducts fallback_stub (JStr ''X'') (JNum 10) (initial_state 1000)))) = 1
   \<and> gets_to products_endpoint
     (issued (initial_state 1000)
        (snd (searchProducts timeout_stub (JStr ''X'') (JNum 10) (initial_state 1000)))) = 0
   \<and> gets_to vector_endpoint
     (issued (initial_state 1000)
        (snd (searchProducts fallback_stub unprintable_query (JNum 10) (initial_state 1000)))) = 0
   \<and> gets_to vector_endpoint
     (issued (initial_state 1000)
        (snd (searchProducts unprintable_token_stub (JStr ''X'') (JNum 10)
                (initial_state 1000)))) = 0"
proof -
  have a: "printable (JStr ''X'') \<and> request_sent fallback_stub (initial_state 1000)"
    by (simp add: request_sent_def run_defs)
  have b: "fallback_due fallback_stub (JStr ''X'') (JNum 10) (initial_state 1000)"
    by (simp add: fallback_due_def fallback_begun_def request_sent_def run_defs)
  have c: "isl (fst (makeBackendRequest timeout_stub vector_endpoint
                       (vector_params (JStr ''X'') (JNum 10)) (initial_state 1000)))"
    by (simp add: run_defs)
  have d: "\<not> printable unprintable_query"
    by (simp add: unprintable_query_def)
  have e: "\<not> request_sent unprintable_token_stub (initial_state 1000)"
    by (simp add: request_sent_def unprintable_token_stub_def run_defs)
  show ?thesis
    using a b c d e
      searchProducts_upstream_calls [of fallback_stub "JStr ''X''" "JNum 10" "initial_state 1000"
        "fst (searchProducts fallback_stub (JStr ''X'') (JNum 10) (initial_state 1000))"
        "snd (searchProducts fallback_stub (JStr ''X'') (JNum 10) (initial_state 1000))"]
      searchProducts_upstream_calls [of timeout_stub "JStr ''X''" "JNum 10" "initial_state 1000"
        "fst (searchProducts timeout_stub (JStr ''X'') (JNum 10) (initial_state 1000))"
        "snd (searchProducts timeout_stub (JStr ''X'') (JNum 10) (initial_state 1000))"]
      searchProducts_upstream_calls [of fallback_stub unprintable_query "JNum 10"
        "initial_state 1000"
        "fst (searchProducts fallback_stub unprintable_query (JNum 10) (initial_state 1000))"
        "snd (searchProducts fallback_stub unprintable_query (JNum 10) (initial_state 1000))"]
      searchProducts_upstream_calls [of unprintable_token_stub "JStr ''X''" "JNum 10"
        "initial_state 1000"
        "fst (searchProducts unprintable_token_stub (JStr ''X'') (JNum 10) (initial_state 1000))"
        "snd (searchProducts unprintable_token_stub (JStr ''X'') (JNum 10) (initial_state 1000))"]
    by simp
qed

text \<open>
  The claim as written fails where the vector-search request itself fails: the
  exception reaches the \<open>catch\<close> of \<open>searchProducts\<close> and no listing request follows.
\<close>

theorem searchProducts_fallback_counterexample:
  "fst (makeBackendRequest timeout_stub vector_endpoint
          (vector_params (JStr ''seringa'') (JNum 5)) (initial_state 1000))
     = Inl (Error ''Backend request failed: timeout of 5000ms exceeded'')
   \<and> gets_to products_endpoint
        (calls (snd (searchProducts timeout_stub (JStr ''seringa'') (JNum 5)
                       (initial_state 1000)))) = 0"
  by (simp add: run_defs gets_to_def)

subsection \<open>Exceptions are caught\<close>

lemma getAuthToken_error:
  "getAuthToken env s = (Inl e, s') \<Longrightarrow> e = Error ''Failed to authenticate with backend''"
  by (auto simp: getAuthToken_def split: prod.splits sum.splits bool.splits)

lemma makeBackendRequest_error:
  "makeBackendRequest env ep ps s = (Inl e, s') \<Longrightarrow>
     e = Error ''Failed to authenticate with backend'' \<or>
     (\<exists>m. e = Error (''Backend request failed: '' @ m))"
  by (auto simp: makeBackendRequest_def dest: getAuthToken_error split: prod.splits sum.splits)

lemma makeBackendRequest_message:
  "makeBackendRequest env ep ps s = (Inl e, s') \<Longrightarrow> message e \<noteq> []"
  by (auto dest: makeBackendRequest_error)

lemma searchProducts_resolves:
  "\<exists>v s'. searchProducts env query limit s = (Inr v, s')"
  by (simp add: searchProducts_def split: prod.splits sum.splits)

lemma vectorSearchProducts_resolves:
  "\<exists>v s'. vectorSearchProducts env query limit threshold s = (Inr v, s')"
  by (simp add: vectorSearchProducts_def split: prod.splits sum.splits)

lemma searchProducts_catch:
  "searchProducts_try env query limit s = (Inl e, s') \<Longrightarrow>
     searchProducts env query limit s = (Inr (failure_envelope e query), s')"
  by (simp add: searchProducts_def)

lemma vectorSearchProducts_catch:
  "vectorSearchProducts_try env query limit threshold s = (Inl e, s') \<Longrightarrow>
     vectorSearchProducts env query limit threshold s = (Inr (failure_envelope e query), s')"
  by (simp add: vectorSearchProducts_def)

lemma searchProducts_try_first_raises:
  "printable query \<Longrightarrow>
   makeBackendRequest env vector_endpoint (vector_params query limit) s = (Inl e, s') \<Longrightarrow>
     searchProducts_try env query limit s = (Inl e, s')"
  by (simp add: searchProducts_try_def interpolate_def)

lemma searchProducts_try_second_raises:
  assumes "fallback_begun env query limit s"
    and "makeBackendRequest env products_endpoint (listing_params query limit)
           (snd (makeBackendRequest env vector_endpoint (vector_params query limit) s)) = (Inl e, s')"
  shows "searchProducts_try env query limit s = (Inl e, s')"
  using assms
  by (auto simp: searchProducts_try_def interpolate_def fallback_begun_def
           split: prod.splits sum.splits)

lemma vectorSearchProducts_try_raises:
  "printable query \<Longrightarrow>
   makeBackendRequest env vector_endpoint (vector_search_params query limit threshold) s = (Inl e, s') \<Longrightarrow>
     vectorSearchProducts_try env query limit threshold s = (Inl e, s')"
  by (simp add: vectorSearchProducts_try_def interpolate_def)

lemma always_raises_request:
  assumes "always_raises env"
  shows "\<exists>e s'. makeBackendRequest env ep ps s = (Inl e, s')"
proof (cases "getAuthToken env s")
  case (Pair r s1)
  show ?thesis
  proof (cases r)
    case (Inl e)
    with Pair show ?thesis by (simp add: makeBackendRequest_def)
  next
    case (Inr tok)
    show ?thesis
    proof (cases "printable tok")
      case False
      with Pair Inr show ?thesis by (simp add: makeBackendRequest_def interpolate_def)
    next
      case True
      obtain g w where g: "axios_get env (BACKEND_URL env @ ep) tok ps (world s1) = (g, w)"
        by (cases "axios_get env (BACKEND_URL env @ ep) tok ps (world s1)")
      from assms have "isl (fst (axios_get env (BACKEND_URL env @ ep) tok ps (world s1)))"
        by (simp add: always_raises_def)
      with g obtain m where "g = Inl m" by (cases g) auto
      with Pair Inr g True show ?thesis by (simp add: makeBackendRequest_def interpolate_def)
    qed
  qed
qed

lemma always_raises_searchProducts_try:
  assumes "always_raises env"
  shows "\<exists>e s'. message e \<noteq> [] \<and> searchProducts_try env query limit s = (Inl e, s')"
proof (cases "printable query")
  case False
  then show ?thesis
    using searchProducts_try_unprintable [of query env limit s] by (metis message.simps(2) list.distinct(1))
next
  case True
  from always_raises_request [OF assms, of vector_endpoint "vector_params query limit" s]
  obtain e s' where r: "makeBackendRequest env vector_endpoint (vector_params query limit) s = (Inl e, s')"
    by blast
  from searchProducts_try_first_raises [OF True r] makeBackendRequest_message [OF r]
  show ?thesis by blast
qed

lemma always_raises_vectorSearchProducts_try:
  assumes "always_raises env"
  shows "\<exists>e s'. message e \<noteq> [] \<and>
           vectorSearchProducts_try env query limit threshold s = (Inl e, s')"
proof (cases "printable query")
  case False
  then show ?thesis
    using vectorSearchProducts_try_unprintable [of query env limit threshold s]
    by (metis message.simps(2) list.distinct(1))
next
  case True
  from always_raises_request [OF assms, of vector_endpoint
      "vector_search_params query limit threshold" s]
  obtain e s' where r: "makeBackendRequest env vector_endpoint
      (vector_search_params query limit threshold) s = (Inl e, s')"
    by blast
  from vectorSearchProducts_try_raises [OF True r] makeBackendRequest_message [OF r]
  show ?thesis by blast
qed

lemma failure_envelope_literal:
  "failure_envelope e query =
     JObj [(''success'', JBool False), (''error'', JStr (message e)), (''query'', query),
           (''totalFound'', JNum 0), (''products'', JArr [])]"
  by (simp add: failure_envelope_def)

text \<open>
  Claim C2. Both search operations always resolve. Every exception of their \<open>try\<close>
  block is turned into the object \<open>{success: false, error: <message>, query,
  totalFound: 0, products: []}\<close>. An exception raised by one of the HTTP attempts
  (authentication or GET) has a non-empty message and ends in that object; so does a
  query that does not convert to a string, before any request. Against a backend whose
  every HTTP attempt raises, both operations return that object with a non-empty error.
\<close>

theorem search_operations_never_raise:
  "(\<exists>v s'. searchProducts env query limit s = (Inr v, s'))
   \<and> (\<exists>v s'. vectorSearchProducts env query limit threshold s = (Inr v, s'))
   \<and> (\<forall>e s'. searchProducts_try env query limit s = (Inl e, s') \<longrightarrow>
         searchProducts env query limit s =
           (Inr (JObj [(''success'', JBool False), (''error'', JStr (message e)),
                       (''query'', query), (''totalFound'', JNum 0), (''products'', JArr [])]),
            s'))
   \<and> (\<forall>e s'. vectorSearchProducts_try env query limit threshold s = (Inl e, s') \<longrightarrow>
         vectorSearchProducts env query limit threshold s =
           (Inr (JObj [(''success'', JBool False), (''error'', JStr (message e)),
                       (''query'', query), (''totalFound'', JNum 0), (''products'', JArr [])]),
            s'))
   \<and> (\<forall>e s'. printable query \<and>
         makeBackendRequest env vector_endpoint (vector_params query limit) s = (Inl e, s') \<longrightarrow>
         message e \<noteq> [] \<and>
         searchProducts env query limit s =
           (Inr (JObj [(''success'', JBool False), (''error'', JStr (message e)),
                       (''query'', query), (''totalFound'', JNum 0), (''products'', JArr [])]),
            s'))
   \<and> (\<forall>e s'. fallback_begun env query limit s \<and>
         makeBackendRequest env products_endpoint (listing_params query limit)
           (snd (makeBackendRequest env vector_endpoint (vector_params query limit) s)) = (Inl e, s') \<longrightarrow>
         message e \<noteq> [] \<and>
         searchProducts env query limit s =
           (Inr (JObj [(''success'', JBool False), (''error'', JStr (message e)),
                       (''query'', query), (''totalFound'', JNum 0), (''products'', JArr [])]),
            s'))
   \<and> (\<forall>e s'. printable query \<and>
         makeBackendRequest env vector_endpoint
           (vector_search_params query limit threshold) s = (Inl e, s') \<longrightarrow>
         message e \<noteq> [] \<and>
         vectorSearchProducts env query limit threshold s =
           (Inr (JObj [(''success'', JBool False), (''error'', JStr (message e)),
                       (''query'', query), (''totalFound'', JNum 0), (''products'', JArr [])]),
            s'))
   \<and> (\<not> printable query \<longrightarrow>
         searchProducts env query limit s =
           (Inr (JObj [(''success'', JBool False),
                       (''error'', JStr ''Cannot convert object to primitive value''),
                       (''query'', query), (''totalFound'', JNum 0), (''products'', JArr [])]),
            s) \<and>
         vectorSearchProducts env query limit threshold s =
           (Inr (JObj [(''success'', JBool False),
                       (''error'', JStr ''Cannot convert object to primitive value''),
                       (''query'', query), (''totalFound'', JNum 0), (''products'', JArr [])]),
            s))
   \<and> (always_raises env \<longrightarrow>
         (\<exists>e s'. message e \<noteq> [] \<and>
            searchProducts env query limit s =
              (Inr (JObj [(''success'', JBool False), (''error'', JStr (message e)),
                          (''query'', query), (''totalFound'', JNum 0), (''products'', JArr [])]),
               s')) \<and>
         (\<exists>e s'. message e \<noteq> [] \<and>
            vectorSearchProducts env query limit threshold s =
              (Inr (JObj [(''success'', JBool False), (''error'', JStr (message e)),
                          (''query'', query), (''totalFound'', JNum 0), (''products'', JArr [])]),
               s')))"
  unfolding failure_envelope_literal [symmetric]
proof (intro conjI allI impI)
  show "\<exists>v s'. searchProducts env query limit s = (Inr v, s')"
    by (rule searchProducts_resolves)
  show "\<exists>v s'. vectorSearchProducts env query limit threshold s = (Inr v, s')"
    by (rule vectorSearchProducts_resolves)
next
  fix e s'
  assume "searchProducts_try env query limit s = (Inl e, s')"
  then show "searchProducts env query limit s = (Inr (failure_envelope e query), s')"
    by (rule searchProducts_catch)
next
  fix e s'
  assume "vectorSearchProducts_try env query limit threshold s = (Inl e, s')"
  then show "vectorSearchProducts env query limit threshold s
      = (Inr (failure_envelope e query), s')"
    by (rule vectorSearchProducts_catch)
next
  fix e s'
  assume h: "printable query \<and>
         makeBackendRequest env vector_endpoint (vector_params query limit) s = (Inl e, s')"
  then show "message e \<noteq> []"
    using makeBackendRequest_message by blast
  from h show "searchProducts env query limit s = (Inr (failure_envelope e query), s')"
    using searchProducts_try_first_raises searchProducts_catch by blast
next
  fix e s'
  assume h: "fallback_begun env query limit s \<and>
         makeBackendRequest env products_endpoint (listing_params query limit)
           (snd (makeBackendRequest env vector_endpoint (vector_params query limit) s)) = (Inl e, s')"
  then show "message e \<noteq> []"
    using makeBackendRequest_message by blast
  from h show "searchProducts env query limit s = (Inr (failure_envelope e query), s')"
    using searchProducts_try_second_raises searchProducts_catch by blast
next
  fix e s'
  assume h: "printable query \<and>
         makeBackendRequest env vector_endpoint
           (vector_search_params query limit threshold) s = (Inl e, s')"
  then show "message e \<noteq> []"
    using makeBackendRequest_message by blast
  from h show "vectorSearchProducts env query limit threshold s
      = (Inr (failure_envelope e query), s')"
    using vectorSearchProducts_try_raises vectorSearchProducts_catch by blast
next
  assume u: "\<not> printable query"
  from u show "searchProducts env query limit s =
           (Inr (JObj [(''success'', JBool False),
                       (''error'', JStr ''Cannot convert object to primitive value''),
                       (''query'', query), (''totalFound'', JNum 0), (''products'', JArr [])]),
            s)"
    by (simp add: searchProducts_def searchProducts_try_unprintable failure_envelope_def)
  from u show "vectorSearchProducts env query limit threshold s =
           (Inr (JObj [(''success'', JBool False),
                       (''error'', JStr ''Cannot convert object to primitive value''),
                       (''query'', query), (''totalFound'', JNum 0), (''products'', JArr [])]),
            s)"
    by (simp add: vectorSearchProducts_def vectorSearchProducts_try_unprintable
          failure_envelope_def)
next
  assume a: "always_raises env"
  from always_raises_searchProducts_try [OF a, of query limit s] searchProducts_catch
  show "\<exists>e s'. message e \<noteq> [] \<and>
            searchProducts env query limit s = (Inr (failure_envelope e query), s')"
    by blast
  from always_raises_vectorSearchProducts_try [OF a, of query limit threshold s]
    vectorSearchProducts_catch
  show "\<exists>e s'. message e \<noteq> [] \<and>
            vectorSearchProducts env query limit threshold s
              = (Inr (failure_envelope e query), s')"
    by blast
qed

theorem search_operations_never_raise_witness:
  "always_raises down_stub
   \<and> (\<exists>e s'. message e \<noteq> [] \<and>
         searchProducts down_stub (JStr ''seringa'') (JNum 5) (initial_state 1000)
           = (Inr (JObj [(''success'', JBool False), (''error'', JStr (message e)),
                  (''query'', JStr ''seringa''), (''totalFound'', JNum 0), (''products'', JArr [])]), s'))
   \<and> (\<exists>e s'. message e \<noteq> [] \<and>
         vectorSearchProducts down_stub (JStr ''seringa'') (JNum 5) (JNum (7 / 10)) (initial_state 1000)
           = (Inr (JObj [(''success'', JBool False), (''error'', JStr (message e)),
                  (''query'', JStr ''seringa''), (''totalFound'', JNum 0), (''products'', JArr [])]), s'))
   \<and> (\<exists>s'. searchProducts timeout_stub (JStr ''seringa'') (JNum 5) (initial_state 1000)
           = (Inr (JObj [(''success'', JBool False), (''error'', JStr ''Backend request failed: timeout of 5000ms exceeded''),
                  (''query'', JStr ''seringa''), (''totalFound'', JNum 0), (''products'', JArr [])]), s'))
   \<and> (\<exists>s'. searchProducts listing_down_stub (JStr ''seringa'') (JNum 5) (initial_state 1000)
           = (Inr (JObj [(''success'', JBool False), (''error'', JStr ''Backend request failed: Request failed with status code 500''),
                  (''query'', JStr ''seringa''), (''totalFound'', JNum 0), (''products'', JArr [])]), s'))
   \<and> (\<exists>s'. vectorSearchProducts timeout_stub (JStr ''seringa'') (JNum 5) (JNum (7 / 10))
            (initial_state 1000)
           = (Inr (JObj [(''success'', JBool False), (''error'', JStr ''Backend request failed: timeout of 5000ms exceeded''),
                  (''query'', JStr ''seringa''), (''totalFound'', JNum 0), (''products'', JArr [])]), s'))
   \<and> (\<exists>s'. searchProducts fallback_stub unprintable_query (JNum 5) (initial_state 1000)
           = (Inr (JObj [(''success'', JBool False), (''error'', JStr ''Cannot convert object to primitive value''),
                  (''query'', unprintable_query), (''totalFound'', JNum 0), (''products'', JArr [])]), s'))"
proof -
  note D = search_operations_never_raise [of down_stub "JStr ''seringa''" "JNum 5"
        "initial_state 1000" "JNum (7 / 10)"]
  note T = search_operations_never_raise [of timeout_stub "JStr ''seringa''" "JNum 5"
        "initial_state 1000" "JNum (7 / 10)"]
  note L = search_operations_never_raise [of listing_down_stub "JStr ''seringa''" "JNum 5"
        "initial_state 1000" "JNum (7 / 10)"]
  note U = search_operations_never_raise [of fallback_stub unprintable_query "JNum 5"
        "initial_state 1000" "JNum (7 / 10)"]
  note c5 = conjunct2 [THEN conjunct2, THEN conjunct2, THEN conjunct2, THEN conjunct1]
  note c6 = conjunct2 [THEN conjunct2, THEN conjunct2, THEN conjunct2, THEN conjunct2,
        THEN conjunct1]
  note c7 = conjunct2 [THEN conjunct2, THEN conjunct2, THEN conjunct2, THEN conjunct2,
        THEN conjunct2, THEN conjunct1]
  note c8 = conjunct2 [THEN conjunct2, THEN conjunct2, THEN conjunct2, THEN conjunct2,
        THEN conjunct2, THEN conjunct2, THEN conjunct1]
  note c9 = conjunct2 [THEN conjunct2, THEN conjunct2, THEN conjunct2, THEN conjunct2,
        THEN conjunct2, THEN conjunct2, THEN conjunct2]
  have h: "always_raises down_stub"
    by (simp add: always_raises_def down_stub_def stub_backend_def)
  have p: "printable (JStr ''seringa'')"
    by simp
  have u: "\<not> printable unprintable_query"
    by (simp add: unprintable_query_def)
  have t: "makeBackendRequest timeout_stub vector_endpoint
             (vector_params (JStr ''seringa'') (JNum 5)) (initial_state 1000)
           = (Inl (Error ''Backend request failed: timeout of 5000ms exceeded''),
              snd (makeBackendRequest timeout_stub vector_endpoint
                (vector_params (JStr ''seringa'') (JNum 5)) (initial_state 1000)))"
    by (simp add: run_defs)
  have tv: "makeBackendRequest timeout_stub vector_endpoint
             (vector_search_params (JStr ''seringa'') (JNum 5) (JNum (7 / 10))) (initial_state 1000)
           = (Inl (Error ''Backend request failed: timeout of 5000ms exceeded''),
              snd (makeBackendRequest timeout_stub vector_endpoint
                (vector_search_params (JStr ''seringa'') (JNum 5) (JNum (7 / 10)))
                (initial_state 1000)))"
    by (simp add: run_defs)
  have b: "fallback_begun listing_down_stub (JStr ''seringa'') (JNum 5) (initial_state 1000)"
    by (simp add: fallback_begun_def run_defs listing_down_stub_def)
  have l: "makeBackendRequest listing_down_stub products_endpoint
             (listing_params (JStr ''seringa'') (JNum 5))
             (snd (makeBackendRequest listing_down_stub vector_endpoint
                     (vector_params (JStr ''seringa'') (JNum 5)) (initial_state 1000)))
           = (Inl (Error ''Backend request failed: Request failed with status code 500''),
              snd (makeBackendRequest listing_down_stub products_endpoint
             (listing_params (JStr ''seringa'') (JNum 5))
             (snd (makeBackendRequest listing_down_stub vector_endpoint
                     (vector_params (JStr ''seringa'') (JNum 5)) (initial_state 1000)))))"
    by (simp add: run_defs listing_down_stub_def)
  have d: "(\<exists>e s'. message e \<noteq> [] \<and>
         searchProducts down_stub (JStr ''seringa'') (JNum 5) (initial_state 1000)
           = (Inr (JObj [(''success'', JBool False), (''error'', JStr (message e)),
                  (''query'', JStr ''seringa''), (''totalFound'', JNum 0), (''products'', JArr [])]), s'))
   \<and> (\<exists>e s'. message e \<noteq> [] \<and>
         vectorSearchProducts down_stub (JStr ''seringa'') (JNum 5) (JNum (7 / 10)) (initial_state 1000)
           = (Inr (JObj [(''success'', JBool False), (''error'', JStr (message e)),
                  (''query'', JStr ''seringa''), (''totalFound'', JNum 0), (''products'', JArr [])]), s'))"
    using h D [THEN c9] by blast
  have t': "\<exists>s'. searchProducts timeout_stub (JStr ''seringa'') (JNum 5) (initial_state 1000)
           = (Inr (JObj [(''success'', JBool False), (''error'', JStr ''Backend request failed: timeout of 5000ms exceeded''),
                  (''query'', JStr ''seringa''), (''totalFound'', JNum 0), (''products'', JArr [])]), s')"
    using p t T [THEN c5] by (metis message.simps(1))
  have l': "\<exists>s'. searchProducts listing_down_stub (JStr ''seringa'') (JNum 5) (initial_state 1000)
           = (Inr (JObj [(''success'', JBool False), (''error'', JStr ''Backend request failed: Request failed with status code 500''),
                  (''query'', JStr ''seringa''), (''totalFound'', JNum 0), (''products'', JArr [])]), s')"
    using b l L [THEN c6] by (metis message.simps(1))
  have v': "\<exists>s'. vectorSearchProducts timeout_stub (JStr ''seringa'') (JNum 5) (JNum (7 / 10))
            (initial_state 1000)
           = (Inr (JObj [(''success'', JBool False), (''error'', JStr ''Backend request failed: timeout of 5000ms exceeded''),
                  (''query'', JStr ''seringa''), (''totalFound'', JNum 0), (''products'', JArr [])]), s')"
    using p tv T [THEN c7] by (metis message.simps(1))
  have u': "\<exists>s'. searchProducts fallback_stub unprintable_query (JNum 5) (initial_state 1000)
           = (Inr (JObj [(''success'', JBool False), (''error'', JStr ''Cannot convert object to primitive value''),
                  (''query'', unprintable_query), (''totalFound'', JNum 0), (''products'', JArr [])]), s')"
    using u U [THEN c8] by blast
  show ?thesis
    using h d t' l' v' u' by (intro conjI) blast+
qed

subsection \<open>The shape of returned values\<close>

lemma searchProducts_try_completes:
  assumes "searchProducts_try env query limit s = (Inr v, s')"
  obtains results s1 where
    "printable query"
    "makeBackendRequest env vector_endpoint (vector_params query limit) s = (Inr results, s1)"
    "(needs_fallback results = Inr False \<and> s' = s1 \<and> literal_result query results = Inr v) \<or>
     (needs_fallback results = Inr True \<and>
      (\<exists>nameResults results'.
         makeBackendRequest env products_endpoint (listing_params query limit) s1
           = (Inr nameResults, s') \<and>
         fallback_results env query nameResults results = Inr results' \<and>
         literal_result query results' = Inr v))"
proof -
  from assms have p: "printable query"
    by (rule searchProducts_try_Inr_printable)
  obtain r1 s1 where
    first: "makeBackendRequest env vector_endpoint (vector_params query limit) s = (r1, s1)"
    by (cases "makeBackendRequest env vector_endpoint (vector_params query limit) s")
  with assms p obtain results where r1: "r1 = Inr results"
    by (cases r1) (auto simp: searchProducts_try_def interpolate_def)
  have "(needs_fallback results = Inr False \<and> s' = s1 \<and> literal_result query results = Inr v) \<or>
     (needs_fallback results = Inr True \<and>
      (\<exists>nameResults results'.
         makeBackendRequest env products_endpoint (listing_params query limit) s1
           = (Inr nameResults, s') \<and>
         fallback_results env query nameResults results = Inr results' \<and>
         literal_result query results' = Inr v))"
  proof (cases "needs_fallback results")
    case (Inl e)
    with assms p first r1 show ?thesis
      by (simp add: searchProducts_try_def interpolate_def)
  next
    case (Inr b)
    show ?thesis
    proof (cases b)
      case False
      with Inr assms p first r1 show ?thesis
        by (simp add: searchProducts_try_def interpolate_def)
    next
      case True
      obtain r2 s2 where
        second: "makeBackendRequest env products_endpoint (listing_params query limit) s1 = (r2, s2)"
        by (cases "makeBackendRequest env products_endpoint (listing_params query limit) s1")
      with True Inr assms p first r1 show ?thesis
        by (auto simp: searchProducts_try_def interpolate_def split: sum.splits)
    qed
  qed
  with p first r1 show ?thesis
    using that by blast
qed

lemma js_map_array: "js_map src f x = Inr y \<Longrightarrow> \<exists>xs ys. x = JArr xs \<and> y = JArr ys \<and> map_raise f xs = Inr ys"
  by (cases x) (auto split: sum.splits)

lemma literal_result_Inr:
  assumes "literal_result query results = Inr v"
  shows "\<exists>tf ys. js_prop results ''totalFound'' = Inr tf \<and>
           v = JObj [(''success'', JBool True), (''query'', query),
                     (''totalFound'', js_or tf (JNum 0)), (''products'', JArr ys)]"
  using assms
  by (auto simp: literal_result_def split: sum.splits dest!: js_map_array)

lemma fallback_results_Inr:
  assumes "fallback_results env query nameResults results = Inr r'"
  shows "r' = results \<or>
         (\<exists>xs ys. nameResults = JArr xs \<and> map_raise fallback_product xs = Inr ys \<and>
            r' = JObj [(''success'', JBool True), (''query'', query),
                       (''totalFound'', JNum (of_nat (length xs))), (''products'', JArr ys)])"
  using assms
  by (auto simp: fallback_results_def split: sum.splits if_splits bool.splits dest!: js_map_array)

lemma makeBackendRequest_Inr:
  assumes "makeBackendRequest env ep ps s = (Inr r, s')"
  shows "\<exists>token w w'. axios_get env (BACKEND_URL env @ ep) token ps w = (Inr r, w')"
  using assms
  by (auto simp: makeBackendRequest_def split: prod.splits sum.splits)

lemma is_count_or: "is_count tf \<Longrightarrow> is_count (js_or tf (JNum 0))"
  by (simp add: js_or_def)

lemma is_count_length: "is_count (JNum (of_nat n))"
  by simp

lemma counted_totalFound:
  "counted_body r \<Longrightarrow> js_prop r ''totalFound'' = Inr tf \<Longrightarrow> is_count tf"
  by (cases r) (auto simp: counted_body_def has_def own_def split: option.splits)

lemma successful_success:
  "successful_body r \<Longrightarrow> js_prop r ''success'' = Inr sv \<Longrightarrow> sv = JBool True"
  by (cases r) (auto simp: successful_body_def own_def split: option.splits)

lemma vector_bodies_request:
  "vector_bodies env P \<Longrightarrow> makeBackendRequest env vector_endpoint ps s = (Inr r, s') \<Longrightarrow> P r"
  unfolding vector_bodies_def using makeBackendRequest_Inr by blast

lemma searchProducts_try_Inr:
  assumes "searchProducts_try env query limit s = (Inr v, s')"
  shows "\<exists>tf ys. v = JObj [(''success'', JBool True), (''query'', query),
                          (''totalFound'', tf), (''products'', JArr ys)] \<and>
           (vector_bodies env counted_body \<longrightarrow> is_count tf)"
proof -
  from assms obtain results s1 where
    first: "makeBackendRequest env vector_endpoint (vector_params query limit) s = (Inr results, s1)"
    and run: "(needs_fallback results = Inr False \<and> s' = s1 \<and>
        literal_result query results = Inr v) \<or>
     (needs_fallback results = Inr True \<and>
      (\<exists>nameResults results'.
         makeBackendRequest env products_endpoint (listing_params query limit) s1
           = (Inr nameResults, s') \<and>
         fallback_results env query nameResults results = Inr results' \<and>
         literal_result query results' = Inr v))"
    by (rule searchProducts_try_completes)
  from first have conf: "vector_bodies env counted_body \<Longrightarrow> counted_body results"
    using vector_bodies_request by blast
  have final: ?thesis
    if lit: "literal_result query r' = Inr v"
      and ok: "\<And>tf. vector_bodies env counted_body \<Longrightarrow> js_prop r' ''totalFound'' = Inr tf \<Longrightarrow> is_count tf"
    for r'
  proof -
    from literal_result_Inr [OF lit] obtain tf ys where
      tf: "js_prop r' ''totalFound'' = Inr tf" and
      v: "v = JObj [(''success'', JBool True), (''query'', query),
                     (''totalFound'', js_or tf (JNum 0)), (''products'', JArr ys)]"
      by blast
    have "vector_bodies env counted_body \<longrightarrow> is_count (js_or tf (JNum 0))"
      using ok [OF _ tf] is_count_or by blast
    with v show ?thesis by blast
  qed
  have from_vector: ?thesis if "literal_result query results = Inr v"
    using that conf counted_totalFound by (intro final [of results]) auto
  from run show ?thesis
  proof
    assume "needs_fallback results = Inr False \<and> s' = s1 \<and> literal_result query results = Inr v"
    then have "literal_result query results = Inr v" by simp
    then show ?thesis by (rule from_vector)
  next
    assume "needs_fallback results = Inr True \<and>
      (\<exists>nameResults results'.
         makeBackendRequest env products_endpoint (listing_params query limit) s1
           = (Inr nameResults, s') \<and>
         fallback_results env query nameResults results = Inr results' \<and>
         literal_result query results' = Inr v)"
    then obtain nameResults results' where
      fr: "fallback_results env query nameResults results = Inr results'" and
      lit: "literal_result query results' = Inr v"
      by blast
    from fallback_results_Inr [OF fr] show ?thesis
    proof
      assume "results' = results"
      with lit have "literal_result query results = Inr v" by simp
      then show ?thesis by (rule from_vector)
    next
      assume "\<exists>xs ys. nameResults = JArr xs \<and> map_raise fallback_product xs = Inr ys \<and>
          results' = JObj [(''success'', JBool True), (''query'', query),
                     (''totalFound'', JNum (of_nat (length xs))), (''products'', JArr ys)]"
      then obtain n ys where r': "results' = JObj [(''success'', JBool True), (''query'', query),
                     (''totalFound'', JNum (of_nat n)), (''products'', JArr ys)]"
        by blast
      show ?thesis
        by (rule final [OF lit]) (auto simp: r')
    qed
  qed
qed

lemma vector_result_Inr:
  assumes "vector_result query threshold results = Inr v"
  shows "\<exists>sv tf th ci ys.
           js_prop results ''success'' = Inr sv \<and> js_prop results ''totalFound'' = Inr tf \<and>
           js_prop results ''threshold'' = Inr th \<and> js_prop results ''cacheInfo'' = Inr ci \<and>
           v = JObj [(''success'', sv), (''query'', query),
                     (''totalFound'', js_or tf (JNum 0)),
                     (''threshold'', js_or th threshold),
                     (''products'', JArr ys),
                     (''cacheInfo'', js_or ci JNull)]"
  using assms
  by (auto simp: vector_result_def split: sum.splits dest!: js_map_array)

lemma failure_envelope_well_formed:
  "is_string query \<Longrightarrow> well_formed_SearchResult (failure_envelope e query)"
  by (simp add: well_formed_SearchResult_def failure_envelope_def has_def own_def)

lemma failure_envelope_fields:
  "own (failure_envelope e query) ''success'' = Some (JBool False)"
  "own (failure_envelope e query) ''error'' = Some (JStr (message e))"
  "own (failure_envelope e query) ''query'' = Some query"
  "own (failure_envelope e query) ''totalFound'' = Some (JNum 0)"
  "own (failure_envelope e query) ''products'' = Some (JArr [])"
  by (simp_all add: failure_envelope_def own_def)

lemma searchProducts_shape:
  assumes "searchProducts env query limit s = (Inr v, s')"
  shows "has v ''success'' is_boolean \<and> own v ''query'' = Some query \<and>
         has v ''products'' is_array \<and> own v ''totalFound'' \<noteq> None \<and>
         (own v ''success'' = Some (JBool False) \<longrightarrow> (\<exists>e. v = failure_envelope e query)) \<and>
         (is_string query \<and> vector_bodies env counted_body \<longrightarrow> well_formed_SearchResult v)"
proof (cases "searchProducts_try env query limit s")
  case (Pair r0 s0)
  show ?thesis
  proof (cases r0)
    case (Inl e)
    with Pair assms have "v = failure_envelope e query"
      by (simp add: searchProducts_def)
    then show ?thesis
      using failure_envelope_well_formed [of query e]
      by (auto simp: failure_envelope_fields has_def)
  next
    case (Inr r)
    with Pair assms have "searchProducts_try env query limit s = (Inr v, s')"
      by (simp add: searchProducts_def)
    from searchProducts_try_Inr [OF this] obtain tf ys where
      v: "v = JObj [(''success'', JBool True), (''query'', query),
                    (''totalFound'', tf), (''products'', JArr ys)]" and
      tf: "vector_bodies env counted_body \<longrightarrow> is_count tf"
      by blast
    show ?thesis
      using tf by (cases query) (simp_all add: v well_formed_SearchResult_def has_def own_def)
  qed
qed

lemma vectorSearchProducts_shape:
  assumes "vectorSearchProducts env query limit threshold s = (Inr v, s')"
  shows "own v ''success'' \<noteq> None \<and> own v ''query'' = Some query \<and>
         has v ''products'' is_array \<and> own v ''totalFound'' \<noteq> None \<and>
         (is_string query \<and> vector_bodies env counted_body \<and> vector_bodies env successful_body
            \<longrightarrow> well_formed_SearchResult v)"
proof (cases "vectorSearchProducts_try env query limit threshold s")
  case (Pair r0 s0)
  show ?thesis
  proof (cases r0)
    case (Inl e)
    with Pair assms have "v = failure_envelope e query"
      by (simp add: vectorSearchProducts_def)
    then show ?thesis
      using failure_envelope_well_formed [of query e]
      by (auto simp: failure_envelope_fields has_def)
  next
    case (Inr r)
    with Pair assms have "vectorSearchProducts_try env query limit threshold s = (Inr v, s')"
      by (simp add: vectorSearchProducts_def)
    then obtain results where
      req: "makeBackendRequest env vector_endpoint
              (vector_search_params query limit threshold) s = (Inr results, s')" and
      res: "vector_result query threshold results = Inr v"
      by (auto simp: vectorSearchProducts_try_def vector_search_params_def
               split: prod.splits sum.splits)
    from vector_result_Inr [OF res] obtain sv tf th ci ys where
      sv: "js_prop results ''success'' = Inr sv" and
      tf: "js_prop results ''totalFound'' = Inr tf" and
      v: "v = JObj [(''success'', sv), (''query'', query),
                     (''totalFound'', js_or tf (JNum 0)),
                     (''threshold'', js_or th threshold),
                     (''products'', JArr ys),
                     (''cacheInfo'', js_or ci JNull)]"
      by blast
    have "is_count (js_or tf (JNum 0))" if "vector_bodies env counted_body"
      using vector_bodies_request [OF that req] counted_totalFound [OF _ tf] is_count_or by blast
    moreover have "sv = JBool True" if "vector_bodies env successful_body"
      using vector_bodies_request [OF that req] successful_success [OF _ sv] by blast
    ultimately show ?thesis
      by (cases query) (auto simp: v well_formed_SearchResult_def has_def own_def)
  qed
qed

lemma CallTool_handler_catch:
  "CallTool_try env name args s = (Inl e, s') \<Longrightarrow>
     CallTool_handler env name args s =
       (Inr \<lparr>content_text = JSON_stringify env (error_body e), isError = True\<rparr>, s')"
  by (simp add: CallTool_handler_def)

lemma error_body_fields:
  "own (error_body e) ''success'' = Some (JBool False)"
  "own (error_body e) ''error'' = Some (JStr (message e))"
  "own (error_body e) ''query'' = None"
  "own (error_body e) ''totalFound'' = None"
  "own (error_body e) ''products'' = None"
  by (simp_all add: error_body_def own_def)

lemma CallTool_handler_passes:
  assumes "CallTool_handler env name args s = (Inr out, s')" and "\<not> isError out"
  shows "\<exists>v query limit threshold.
           out = text_output env v \<and>
           (searchProducts env query limit s = (Inr v, s') \<or>
            vectorSearchProducts env query limit threshold s = (Inr v, s'))"
proof -
  from assms have body: "CallTool_try env name args s = (Inr out, s')"
    by (auto simp: CallTool_handler_def split: prod.splits sum.splits)
  then show ?thesis
    by (auto simp: CallTool_try_def split: if_splits sum.splits prod.splits)
qed

text \<open>
  Claim C3, as the code has it. Every value the two search operations return holds the
  caller's \<open>query\<close>, a \<open>products\<close> array, a \<open>success\<close> and a \<open>totalFound\<close>;
  \<open>searchProducts\<close> returns a boolean \<open>success\<close>, and \<open>success: false\<close> only in
  the failure envelope, which is well formed for a string query. The fields
  \<open>totalFound\<close> (both operations) and \<open>success\<close> (\<open>vectorSearchProducts\<close>) are
  forwarded from the backend unchecked, so the value is a well-formed SearchResult when
  the query is a string and the vector-search bodies hold an integer \<open>totalFound\<close>
  that is at least 0 and, for \<open>vectorSearchProducts\<close>, \<open>success: true\<close>. What the
  handler's own \<open>catch\<close> serialises is only \<open>{success: false, error}\<close>, flagged
  \<open>isError\<close>; every unflagged output is the serialised value of a search operation.
\<close>

theorem returned_values_shape:
  "(\<forall>v s'. searchProducts env query limit s = (Inr v, s') \<longrightarrow>
       has v ''success'' is_boolean \<and> own v ''query'' = Some query \<and>
       has v ''products'' is_array \<and> own v ''totalFound'' \<noteq> None \<and>
       (own v ''success'' = Some (JBool False) \<longrightarrow> (\<exists>e. v = failure_envelope e query)) \<and>
       (is_string query \<and> vector_bodies env counted_body \<longrightarrow> well_formed_SearchResult v))
   \<and> (\<forall>v s'. vectorSearchProducts env query limit threshold s = (Inr v, s') \<longrightarrow>
       own v ''success'' \<noteq> None \<and> own v ''query'' = Some query \<and>
       has v ''products'' is_array \<and> own v ''totalFound'' \<noteq> None \<and>
       (is_string query \<and> vector_bodies env counted_body \<and> vector_bodies env successful_body
          \<longrightarrow> well_formed_SearchResult v))
   \<and> (\<forall>e. is_string query \<longrightarrow> well_formed_SearchResult (failure_envelope e query))
   \<and> (\<forall>e s'. CallTool_try env name args s = (Inl e, s') \<longrightarrow>
       CallTool_handler env name args s =
         (Inr \<lparr>content_text = JSON_stringify env (error_body e), isError = True\<rparr>, s') \<and>
       own (error_body e) ''success'' = Some (JBool False) \<and>
       own (error_body e) ''error'' = Some (JStr (message e)) \<and>
       own (error_body e) ''query'' = None \<and>
       own (error_body e) ''totalFound'' = None \<and>
       own (error_body e) ''products'' = None)
   \<and> (\<forall>out s'. CallTool_handler env name args s = (Inr out, s') \<and> \<not> isError out \<longrightarrow>
       (\<exists>v q l t. out = text_output env v \<and>
          (searchProducts env q l s = (Inr v, s') \<or>
           vectorSearchProducts env q l t s = (Inr v, s'))))"
proof -
  have A: "\<forall>v s'. searchProducts env query limit s = (Inr v, s') \<longrightarrow>
       has v ''success'' is_boolean \<and> own v ''query'' = Some query \<and>
       has v ''products'' is_array \<and> own v ''totalFound'' \<noteq> None \<and>
       (own v ''success'' = Some (JBool False) \<longrightarrow> (\<exists>e. v = failure_envelope e query)) \<and>
       (is_string query \<and> vector_bodies env counted_body \<longrightarrow> well_formed_SearchResult v)"
    by (intro allI impI) (rule searchProducts_shape)
  have B: "\<forall>v s'. vectorSearchProducts env query limit threshold s = (Inr v, s') \<longrightarrow>
       own v ''success'' \<noteq> None \<and> own v ''query'' = Some query \<and>
       has v ''products'' is_array \<and> own v ''totalFound'' \<noteq> None \<and>
       (is_string query \<and> vector_bodies env counted_body \<and> vector_bodies env successful_body
          \<longrightarrow> well_formed_SearchResult v)"
    by (intro allI impI) (rule vectorSearchProducts_shape)
  have C: "\<forall>e. is_string query \<longrightarrow> well_formed_SearchResult (failure_envelope e query)"
    by (intro allI impI) (rule failure_envelope_well_formed)
  have D: "\<forall>e s'. CallTool_try env name args s = (Inl e, s') \<longrightarrow>
       CallTool_handler env name args s =
         (Inr \<lparr>content_text = JSON_stringify env (error_body e), isError = True\<rparr>, s') \<and>
       own (error_body e) ''success'' = Some (JBool False) \<and>
       own (error_body e) ''error'' = Some (JStr (message e)) \<and>
       own (error_body e) ''query'' = None \<and>
       own (error_body e) ''totalFound'' = None \<and>
       own (error_body e) ''products'' = None"
    by (intro allI impI conjI) (simp_all add: CallTool_handler_catch error_body_fields)
  have E: "\<forall>out s'. CallTool_handler env name args s = (Inr out, s') \<and> \<not> isError out \<longrightarrow>
       (\<exists>v q l t. out = text_output env v \<and>
          (searchProducts env q l s = (Inr v, s') \<or>
           vectorSearchProducts env q l t s = (Inr v, s')))"
  proof (intro allI impI)
    fix out s'
    assume h: "CallTool_handler env name args s = (Inr out, s') \<and> \<not> isError out"
    show "\<exists>v q l t. out = text_output env v \<and>
          (searchProducts env q l s = (Inr v, s') \<or>
           vectorSearchProducts env q l t s = (Inr v, s'))"
      by (rule CallTool_handler_passes [OF h [THEN conjunct1] h [THEN conjunct2]])
  qed
  from A B C D E show ?thesis
    by (intro conjI)
qed

theorem returned_values_shape_witness:
  "is_string (JStr ''X'')
   \<and> vector_bodies fallback_stub counted_body
   \<and> vector_bodies fallback_stub successful_body
   \<and> (\<exists>v s'. searchProducts fallback_stub (JStr ''X'') (JNum 10) (initial_state 1000) = (Inr v, s')
         \<and> well_formed_SearchResult v)
   \<and> (\<exists>v s'. vectorSearchProducts fallback_stub (JStr ''X'') (JNum 10) (JNum (7 / 10))
                 (initial_state 1000) = (Inr v, s')
         \<and> well_formed_SearchResult v)
   \<and> CallTool_handler fallback_stub ''products.unknown'' (JObj [(''query'', JStr ''X'')])
        (initial_state 1000)
      = (Inr \<lparr>content_text = JSON_stringify fallback_stub
                                (error_body (Error ''Unknown tool: products.unknown'')),
               isError = True\<rparr>, initial_state 1000)
   \<and> (\<exists>v s' e. searchProducts down_stub (JStr ''X'') (JNum 10) (initial_state 1000) = (Inr v, s')
         \<and> own v ''success'' = Some (JBool False) \<and> v = failure_envelope e (JStr ''X''))
   \<and> (\<exists>v q l t s'.
         CallTool_handler fallback_stub ''products.search'' (JObj [(''query'', JStr ''X'')])
           (initial_state 1000) = (Inr (text_output fallback_stub v), s')
         \<and> (searchProducts fallback_stub q l (initial_state 1000) = (Inr v, s') \<or>
            vectorSearchProducts fallback_stub q l t (initial_state 1000) = (Inr v, s')))"
proof -
  note T = returned_values_shape [of fallback_stub "JStr ''X''" "JNum 10" "initial_state 1000"
      "JNum (7 / 10)" "''products.unknown''" "JObj [(''query'', JStr ''X'')]"]
  have q: "is_string (JStr ''X'')"
    by simp
  have c: "vector_bodies fallback_stub counted_body"
    by (simp add: vector_bodies_def counted_body_def has_def own_def fallback_stub_def
          stub_backend_def vector_endpoint_def empty_vector_body_def)
  have t: "vector_bodies fallback_stub successful_body"
    by (simp add: vector_bodies_def successful_body_def own_def fallback_stub_def
          stub_backend_def vector_endpoint_def empty_vector_body_def)
  have u: "CallTool_try fallback_stub ''products.unknown'' (JObj [(''query'', JStr ''X'')])
             (initial_state 1000)
           = (Inl (Error ''Unknown tool: products.unknown''), initial_state 1000)"
    by (simp add: CallTool_try_def)
  have a: "\<exists>v s'. searchProducts fallback_stub (JStr ''X'') (JNum 10) (initial_state 1000) = (Inr v, s')
         \<and> well_formed_SearchResult v"
    using q c T [THEN conjunct1]
      searchProducts_resolves [of fallback_stub "JStr ''X''" "JNum 10" "initial_state 1000"]
    by blast
  have b: "\<exists>v s'. vectorSearchProducts fallback_stub (JStr ''X'') (JNum 10) (JNum (7 / 10))
                 (initial_state 1000) = (Inr v, s')
         \<and> well_formed_SearchResult v"
    using q c t T [THEN conjunct2, THEN conjunct1]
      vectorSearchProducts_resolves [of fallback_stub "JStr ''X''" "JNum 10" "JNum (7 / 10)"
        "initial_state 1000"]
    by blast
  have d: "CallTool_handler fallback_stub ''products.unknown'' (JObj [(''query'', JStr ''X'')])
        (initial_state 1000)
      = (Inr \<lparr>content_text = JSON_stringify fallback_stub
                                (error_body (Error ''Unknown tool: products.unknown'')),
               isError = True\<rparr>, initial_state 1000)"
    using u T [THEN conjunct2, THEN conjunct2, THEN conjunct2, THEN conjunct1] by blast
  note T2 = returned_values_shape [of down_stub "JStr ''X''" "JNum 10" "initial_state 1000"
      "JNum (7 / 10)" "''products.search''" "JObj [(''query'', JStr ''X'')]"]
  note T3 = returned_values_shape [of fallback_stub "JStr ''X''" "JNum 10" "initial_state 1000"
      "JNum (7 / 10)" "''products.search''" "JObj [(''query'', JStr ''X'')]"]
  have "\<exists>v s'. searchProducts down_stub (JStr ''X'') (JNum 10) (initial_state 1000) = (Inr v, s')
         \<and> own v ''success'' = Some (JBool False)"
    by (simp add: down_stub_def own_def run_defs)
  then obtain v0 s0 where
    f1: "searchProducts down_stub (JStr ''X'') (JNum 10) (initial_state 1000) = (Inr v0, s0)" and
    f2: "own v0 ''success'' = Some (JBool False)"
    by blast
  from T2 [THEN conjunct1] f1 f2 have "\<exists>e. v0 = failure_envelope e (JStr ''X'')"
    by blast
  with f1 f2 have e: "\<exists>v s' e. searchProducts down_stub (JStr ''X'') (JNum 10) (initial_state 1000) = (Inr v, s')
         \<and> own v ''success'' = Some (JBool False) \<and> v = failure_envelope e (JStr ''X'')"
    by blast
  have "\<exists>out s'. CallTool_handler fallback_stub ''products.search'' (JObj [(''query'', JStr ''X'')])
           (initial_state 1000) = (Inr out, s') \<and> \<not> isError out"
    by (simp add: CallTool_handler_def CallTool_try_def destructure_def with_default_def
          text_output_def run_defs)
  then obtain out1 s1 where
    g1: "CallTool_handler fallback_stub ''products.search'' (JObj [(''query'', JStr ''X'')])
           (initial_state 1000) = (Inr out1, s1) \<and> \<not> isError out1"
    by blast
  from T3 [THEN conjunct2, THEN conjunct2, THEN conjunct2, THEN conjunct2] g1
  have "\<exists>v q l t. out1 = text_output fallback_stub v \<and>
          (searchProducts fallback_stub q l (initial_state 1000) = (Inr v, s1) \<or>
           vectorSearchProducts fallback_stub q l t (initial_state 1000) = (Inr v, s1))"
    by blast
  with g1 have g: "\<exists>v q l t s'.
         CallTool_handler fallback_stub ''products.search'' (JObj [(''query'', JStr ''X'')])
           (initial_state 1000) = (Inr (text_output fallback_stub v), s')
         \<and> (searchProducts fallback_stub q l (initial_state 1000) = (Inr v, s') \<or>
            vectorSearchProducts fallback_stub q l t (initial_state 1000) = (Inr v, s'))"
    by blast
  show ?thesis
    using q c t a b d e g by (intro conjI)
qed

text \<open>
  The claim as written fails at the gateway's error wrapping, whose object has no
  \<open>query\<close>, \<open>totalFound\<close> or \<open>products\<close>, and where \<open>vectorSearchProducts\<close>
  forwards a backend's \<open>success: false\<close>, which comes without an \<open>error\<close>.
\<close>

theorem returned_values_shape_counterexample:
  "CallTool_handler fallback_stub ''products.unknown'' (JObj [(''query'', JStr ''X'')])
        (initial_state 1000)
      = (Inr \<lparr>content_text = JSON_stringify fallback_stub
                                (error_body (Error ''Unknown tool: products.unknown'')),
               isError = True\<rparr>, initial_state 1000)
   \<and> \<not> well_formed_SearchResult (error_body (Error ''Unknown tool: products.unknown''))
   \<and> fst (vectorSearchProducts refusing_stub (JStr ''X'') (JNum 10) (JNum (7 / 10))
             (initial_state 1000))
      = Inr (JObj [(''success'', JBool False), (''query'', JStr ''X''), (''totalFound'', JNum 0),
                   (''threshold'', JNum (7 / 10)), (''products'', JArr []),
                   (''cacheInfo'', JNull)])
   \<and> \<not> well_formed_SearchResult
          (JObj [(''success'', JBool False), (''query'', JStr ''X''), (''totalFound'', JNum 0),
                   (''threshold'', JNum (7 / 10)), (''products'', JArr []),
                   (''cacheInfo'', JNull)])"
  by (simp add: CallTool_handler_def CallTool_try_def well_formed_SearchResult_def has_def
        own_def error_body_def refusing_stub_def run_defs)

subsection \<open>The credential cache\<close>

lemma token_valid_iff:
  "fst (token_valid env s) \<longleftrightarrow>
     truthy (authToken s) \<and>
     (\<exists>e. tokenExpiry s = Some e \<and> e \<noteq> 0 \<and> fst (date_now env (world s)) < e)"
  by (auto simp: token_valid_def split: option.splits prod.splits)

lemma token_valid_world:
  "snd (token_valid env s) = s \<or> snd (token_valid env s) = s\<lparr>world := snd (date_now env (world s))\<rparr>"
  by (auto simp: token_valid_def split: option.splits prod.splits)

lemma getAuthToken_hit:
  assumes "truthy (authToken s)" "tokenExpiry s = Some e" "e \<noteq> 0"
    "date_now env (world s) = (t, w)" "t < e"
  shows "getAuthToken env s = (Inr (authToken s), s\<lparr>world := w\<rparr>)"
  using assms by (simp add: getAuthToken_def token_valid_def)

lemma getAuthToken_refresh:
  assumes "\<not> fst (token_valid env s)"
    and "axios_post env (BACKEND_URL env @ ''/login'') (login_body env)
           (world (snd (token_valid env s))) = (Inr data, w1)"
    and "js_prop data ''token'' = Inr tok"
    and "date_now env w1 = (t, w2)"
  shows "getAuthToken env s =
           (Inr tok, s\<lparr>authToken := tok, tokenExpiry := Some (t + 82800000),
                        calls := calls s @ [LoginCall], world := w2\<rparr>)"
proof (cases "token_valid env s")
  case (Pair b s0)
  with assms(1) have b: "b = False" by simp
  from Pair token_valid_world [of env s] have "s0 = s \<or> s0 = s\<lparr>world := snd (date_now env (world s))\<rparr>"
    by simp
  then show ?thesis
    using assms(2-) Pair b by (auto simp: getAuthToken_def)
qed

lemma getAuthToken_failure:
  assumes "\<not> fst (token_valid env s)"
    and "axios_post env (BACKEND_URL env @ ''/login'') (login_body env)
           (world (snd (token_valid env s))) = (r, w1)"
    and "(case r of Inl m \<Rightarrow> True | Inr data \<Rightarrow> isl (js_prop data ''token''))"
  shows "getAuthToken env s =
           (Inl (Error ''Failed to authenticate with backend''),
            s\<lparr>calls := calls s @ [LoginCall], world := w1\<rparr>)"
proof (cases "token_valid env s")
  case (Pair b s0)
  with assms(1) have b: "b = False" by simp
  from Pair token_valid_world [of env s] have "s0 = s \<or> s0 = s\<lparr>world := snd (date_now env (world s))\<rparr>"
    by simp
  then show ?thesis
    using assms(2-) Pair b by (auto simp: getAuthToken_def isl_def split: sum.splits)
qed

lemma logins_login_calls:
  "logins (login_calls env s) = (if fst (token_valid env s) then 0 else 1)"
  by (simp add: login_calls_def logins_def)

lemma logins_request_calls:
  "logins (request_calls env ep ps s) = (if fst (token_valid env s) then 0 else 1)"
  by (simp add: request_calls_def login_calls_def logins_def)

lemma getAuthToken_logins:
  "logins (issued s (snd (getAuthToken env s))) = (if fst (token_valid env s) then 0 else 1)"
  using getAuthToken_calls [of env s "fst (getAuthToken env s)" "snd (getAuthToken env s)"]
  by (simp add: issued_def logins_login_calls)

lemma two_requests_logins:
  assumes "makeBackendRequest env ep1 ps1 s = (r1, s1)"
    and "makeBackendRequest env ep2 ps2 s1 = (r2, s2)"
    and "fst (token_valid env s1)"
  shows "logins (issued s s2) = (if fst (token_valid env s) then 0 else 1)"
proof -
  have "calls s2 = calls s @ request_calls env ep1 ps1 s @ request_calls env ep2 ps2 s1"
    using makeBackendRequest_calls [OF assms(1)] makeBackendRequest_calls [OF assms(2)] by simp
  then have "issued s s2 = request_calls env ep1 ps1 s @ request_calls env ep2 ps2 s1"
    by (simp add: issued_def)
  then show ?thesis
    using assms(3) by (simp add: count_append logins_request_calls)
qed

lemma getAuthToken_served_from_cache:
  assumes "getAuthToken env s = (Inr tok, s')" and "calls s' = calls s"
  shows "tok = authToken s \<and> truthy (authToken s) \<and>
         (\<exists>e. tokenExpiry s = Some e \<and> fst (date_now env (world s)) < e)"
proof -
  from getAuthToken_calls [OF assms(1)] assms(2) have v: "fst (token_valid env s)"
    by (simp add: login_calls_def split: if_splits)
  then obtain s0 where tv: "token_valid env s = (True, s0)"
    by (cases "token_valid env s") auto
  with assms(1) have "tok = authToken s0"
    by (auto simp: getAuthToken_def)
  with token_valid_keeps [OF tv] v show ?thesis
    by (auto simp: token_valid_iff)
qed

lemma two_requests_one_login:
  assumes "\<not> fst (token_valid env s)"
    and "makeBackendRequest env ep1 ps1 s = (r1, s1)"
    and "makeBackendRequest env ep2 ps2 s1 = (r2, s2)"
    and "truthy (authToken s1)" and "tokenExpiry s1 = Some e" and "e \<noteq> 0"
    and "fst (date_now env (world s1)) < e"
  shows "logins (issued s s2) = 1"
proof -
  from assms(4-7) have "fst (token_valid env s1)"
    by (simp add: token_valid_iff)
  from two_requests_logins [OF assms(2,3) this] assms(1) show ?thesis
    by simp
qed

text \<open>
  A login exchange that is rejected, or whose body is \<open>null\<close>, does what the
  specification asks of a failed exchange: \<open>getAuthToken\<close> raises after that one
  exchange, leaves both globals as they were, and the next call tries again.
\<close>

lemma rejected_login_keeps_cache:
  assumes "\<not> fst (token_valid env s)"
    and "axios_post env (BACKEND_URL env @ ''/login'') (login_body env)
           (world (snd (token_valid env s))) = (r, w1)"
    and "case r of Inl m \<Rightarrow> True | Inr data \<Rightarrow> isl (js_prop data ''token'')"
  shows "getAuthToken env s =
           (Inl (Error ''Failed to authenticate with backend''),
            s\<lparr>calls := calls s @ [LoginCall], world := w1\<rparr>)
       \<and> authToken (snd (getAuthToken env s)) = authToken s
       \<and> tokenExpiry (snd (getAuthToken env s)) = tokenExpiry s
       \<and> issued s (snd (getAuthToken env s)) = [LoginCall]
       \<and> (fst (date_now env (world s)) \<le> fst (date_now env w1) \<longrightarrow>
            issued (snd (getAuthToken env s)) (snd (getAuthToken env (snd (getAuthToken env s))))
              = [LoginCall])"
proof -
  let ?s' = "s\<lparr>calls := calls s @ [LoginCall], world := w1\<rparr>"
  have run: "getAuthToken env s = (Inl (Error ''Failed to authenticate with backend''), ?s')"
    using assms by (rule getAuthToken_failure)
  have again: "\<not> fst (token_valid env ?s')"
    if "fst (date_now env (world s)) \<le> fst (date_now env w1)"
    using assms(1) that by (auto simp: token_valid_iff)
  have "issued ?s' (snd (getAuthToken env ?s')) = [LoginCall]"
    if "fst (date_now env (world s)) \<le> fst (date_now env w1)"
    using getAuthToken_calls [of env ?s' "fst (getAuthToken env ?s')" "snd (getAuthToken env ?s')"]
      again [OF that]
    by (simp add: issued_def login_calls_def)
  with run show ?thesis
    by (simp add: issued_def)
qed

text \<open>
  Claim C8 fails for the third kind of failed exchange the specification names, the
  malformed body. The login endpoint answers 2xx with a body that has no \<open>token\<close>:
  \<open>getAuthToken\<close> does not raise; it returns \<open>undefined\<close>, and overwrites the
  cached token with \<open>undefined\<close> and the expiry with a time 23 h ahead.
\<close>

theorem tokenless_login_overwrites_cache:
  "axios_post no_token_stub (BACKEND_URL no_token_stub @ ''/login'') (login_body no_token_stub) 1000
     = (Inr (JObj [(''message'', JStr ''ok'')]), 1000)
   \<and> authToken expired_state = JStr ''eyJhbGciOi''
   \<and> tokenExpiry expired_state = Some 500
   \<and> getAuthToken no_token_stub expired_state
     = (Inr JUndefined,
        \<lparr>authToken = JUndefined, tokenExpiry = Some 82801000, calls = [LoginCall],
         world = 1000\<rparr>)"
  by (simp add: no_token_stub_def expired_state_def stub_backend_def getAuthToken_def
        token_valid_def login_body_def)


subsection \<open>Field mapping\<close>

lemma final_product_price:
  assumes "final_product (JObj kvs) = Inr p"
  shows "own p ''estimatedPrice'' = Some (case map_of kvs ''priceEstimated'' of Some x \<Rightarrow> x | None \<Rightarrow> JUndefined)
         \<and> own p ''priceEstimated'' = None"
  using assms by (auto simp: final_product_def read_props_def own_def split: sum.splits)

text \<open>
  Claim C5 fails on the fallback path. The listing's products are mapped twice: the
  fallback callback renames \<open>priceEstimated\<close> to \<open>estimatedPrice\<close>, and the final
  callback then reads \<open>priceEstimated\<close> again, from the renamed object, which has
  none. The product with \<open>priceEstimated: 2.5\<close> comes out with \<open>estimatedPrice\<close>
  undefined. On the vector-search path the product is mapped once and keeps its price.
\<close>

theorem fallback_path_loses_price:
  "fallback_product listed_product
     = Inr (JObj [(''code'', JNum 12345), (''name'', JStr ''X''), (''unit'', JStr ''UN''),
                  (''estimatedPrice'', JNum (5 / 2)), (''description'', JUndefined),
                  (''type'', JUndefined), (''family'', JUndefined)])
   \<and> fst (searchProducts fallback_stub (JStr ''X'') (JNum 10) (initial_state 1000))
     = Inr (JObj [(''success'', JBool True), (''query'', JStr ''X''), (''totalFound'', JNum 1),
                  (''products'',
                   JArr [JObj [(''code'', JNum 12345), (''name'', JStr ''X''),
                               (''unit'', JStr ''UN''), (''estimatedPrice'', JUndefined),
                               (''description'', JUndefined), (''type'', JUndefined),
                               (''family'', JUndefined), (''similarity'', JNull)]])])
   \<and> final_product listed_product
     = Inr (JObj [(''code'', JNum 12345), (''name'', JStr ''X''), (''unit'', JStr ''UN''),
                  (''estimatedPrice'', JNum (5 / 2)), (''description'', JUndefined),
                  (''type'', JUndefined), (''family'', JUndefined), (''similarity'', JNull)])"
  by (simp add: run_defs)

subsection \<open>Pass-through of the vector search\<close>

text \<open>
  Claim C6, as the code has it. When \<open>vectorSearchProducts\<close> completes without a
  caught exception, its result holds the backend's \<open>success\<close> as it is, and the
  backend's \<open>totalFound\<close>, \<open>threshold\<close> and \<open>cacheInfo\<close> when they are truthy; a
  falsy or missing \<open>totalFound\<close> becomes 0, a falsy or missing \<open>threshold\<close> (0
  included) becomes the caller's threshold, a falsy or missing \<open>cacheInfo\<close> becomes
  \<open>null\<close>.
\<close>

theorem vector_search_pass_through:
  assumes "vectorSearchProducts_try env query limit threshold s = (Inr v, s')"
  shows "\<exists>results sv tf th ci.
           makeBackendRequest env vector_endpoint
             (vector_search_params query limit threshold) s = (Inr results, s') \<and>
           js_prop results ''success'' = Inr sv \<and> js_prop results ''totalFound'' = Inr tf \<and>
           js_prop results ''threshold'' = Inr th \<and> js_prop results ''cacheInfo'' = Inr ci \<and>
           vectorSearchProducts env query limit threshold s = (Inr v, s') \<and>
           own v ''success'' = Some sv \<and>
           own v ''totalFound'' = Some (if truthy tf then tf else JNum 0) \<and>
           own v ''threshold'' = Some (if truthy th then th else threshold) \<and>
           own v ''cacheInfo'' = Some (if truthy ci then ci else JNull)"
proof -
  from assms obtain results where
    req: "makeBackendRequest env vector_endpoint
            (vector_search_params query limit threshold) s = (Inr results, s')" and
    res: "vector_result query threshold results = Inr v"
    by (auto simp: vectorSearchProducts_try_def vector_search_params_def
             split: prod.splits sum.splits)
  from vector_result_Inr [OF res] obtain sv tf th ci ys where
    f: "js_prop results ''success'' = Inr sv" "js_prop results ''totalFound'' = Inr tf"
       "js_prop results ''threshold'' = Inr th" "js_prop results ''cacheInfo'' = Inr ci" and
    v: "v = JObj [(''success'', sv), (''query'', query),
                   (''totalFound'', js_or tf (JNum 0)),
                   (''threshold'', js_or th threshold),
                   (''products'', JArr ys),
                   (''cacheInfo'', js_or ci JNull)]"
    by blast
  have o: "own v ''success'' = Some sv"
    "own v ''totalFound'' = Some (if truthy tf then tf else JNum 0)"
    "own v ''threshold'' = Some (if truthy th then th else threshold)"
    "own v ''cacheInfo'' = Some (if truthy ci then ci else JNull)"
    by (simp_all add: v own_def js_or_def)
  have "vectorSearchProducts env query limit threshold s = (Inr v, s')"
    using assms by (simp add: vectorSearchProducts_def)
  with req f o show ?thesis by blast
qed

theorem vector_search_pass_through_witness:
  "\<exists>v s'. vectorSearchProducts fallback_stub (JStr ''X'') (JNum 10) (JNum (7 / 10))
            (initial_state 1000) = (Inr v, s')
     \<and> own v ''success'' = Some (JBool True)
     \<and> own v ''totalFound'' = Some (JNum 0)
     \<and> own v ''threshold'' = Some (JNum (7 / 10))
     \<and> own v ''cacheInfo'' = Some JNull"
proof -
  have "\<exists>v s'. vectorSearchProducts_try fallback_stub (JStr ''X'') (JNum 10) (JNum (7 / 10))
            (initial_state 1000) = (Inr v, s')"
    by (simp add: run_defs)
  then obtain v s' where
    run: "vectorSearchProducts_try fallback_stub (JStr ''X'') (JNum 10) (JNum (7 / 10))
            (initial_state 1000) = (Inr v, s')"
    by blast
  have "fst (makeBackendRequest fallback_stub vector_endpoint
            (vector_search_params (JStr ''X'') (JNum 10) (JNum (7 / 10))) (initial_state 1000))
          = Inr empty_vector_body"
    by (simp add: run_defs)
  with vector_search_pass_through [OF run] show ?thesis
    by (auto simp: empty_vector_body_def)
qed

text \<open>
  The claim as written fails for a threshold the backend reports as 0: it is present in
  the body, and the result carries the caller's 0.7 instead.
\<close>

theorem vector_search_pass_through_counterexample:
  "js_prop zero_threshold_body ''threshold'' = Inr (JNum 0)
   \<and> fst (vectorSearchProducts zero_threshold_stub (JStr ''X'') (JNum 10) (JNum (7 / 10))
            (initial_state 1000))
     = Inr (JObj [(''success'', JBool True), (''query'', JStr ''X''), (''totalFound'', JNum 1),
                  (''threshold'', JNum (7 / 10)), (''products'', JArr []),
                  (''cacheInfo'', JObj [(''hit'', JBool True), (''size'', JNum 3)])])"
  by (simp add: zero_threshold_stub_def zero_threshold_body_def run_defs)

subsection \<open>The number of products returned\<close>

lemma map_raise_length: "map_raise f xs = Inr ys \<Longrightarrow> length ys = length xs"
  by (induction xs arbitrary: ys) (auto split: sum.splits)

lemma literal_result_products:
  assumes "literal_result query results = Inr v"
  shows "length (result_products (Inr v)) = length (envelope_products results)"
proof -
  from assms obtain ps ys where
    ps: "js_prop results ''products'' = Inr ps" and
    m: "js_map ''(results.products || [])'' final_product (js_or ps (JArr [])) = Inr (JArr ys)" and
    v: "own v ''products'' = Some (JArr ys)"
    by (auto simp: literal_result_def own_def split: sum.splits dest!: js_map_array)
  from js_map_array [OF m] obtain xs where
    xs: "js_or ps (JArr []) = JArr xs" and len: "length ys = length xs"
    by (auto dest: map_raise_length)
  have "length xs = length (envelope_products results)"
  proof (cases "truthy ps")
    case False
    with xs have "xs = []" by (simp add: js_or_def)
    moreover from False ps have "envelope_products results = []"
      by (cases results) (auto simp: envelope_products_def split: option.splits jsval.splits)
    ultimately show ?thesis by simp
  next
    case True
    with xs have "ps = JArr xs" by (simp add: js_or_def)
    with ps show ?thesis
      by (cases results) (auto simp: envelope_products_def split: option.splits if_splits)
  qed
  with v len show ?thesis
    by (simp add: result_products_def)
qed

lemma fallback_results_listing:
  assumes "fallback_results env query nameResults results = Inr r'"
  shows "(listing_products nameResults = [] \<and> r' = results) \<or>
         (\<exists>xs ys. nameResults = JArr xs \<and> xs \<noteq> [] \<and> map_raise fallback_product xs = Inr ys \<and>
            r' = JObj [(''success'', JBool True), (''query'', query),
                       (''totalFound'', JNum (of_nat (length xs))), (''products'', JArr ys)])"
proof (cases "\<exists>xs. nameResults = JArr xs")
  case False
  then have l: "listing_products nameResults = []"
    by (cases nameResults) (simp_all add: listing_products_def)
  from fallback_results_Inr [OF assms] False have "r' = results"
    by blast
  with l show ?thesis by simp
next
  case True
  then obtain xs where n: "nameResults = JArr xs" by blast
  show ?thesis
  proof (cases "xs = []")
    case True
    with n assms show ?thesis
      by (simp add: fallback_results_def listing_products_def)
  next
    case False
    with n assms show ?thesis
      by (auto simp: fallback_results_def split: sum.splits dest!: js_map_array)
  qed
qed

lemma searchProducts_try_products:
  assumes "searchProducts_try env query limit s = (Inr v, s')"
  shows "length (result_products (Inr v)) = length (answering_products env query limit s)"
proof -
  from assms obtain results s1 where
    first: "makeBackendRequest env vector_endpoint (vector_params query limit) s = (Inr results, s1)"
    and run: "(needs_fallback results = Inr False \<and> s' = s1 \<and>
        literal_result query results = Inr v) \<or>
     (needs_fallback results = Inr True \<and>
      (\<exists>nameResults results'.
         makeBackendRequest env products_endpoint (listing_params query limit) s1
           = (Inr nameResults, s') \<and>
         fallback_results env query nameResults results = Inr results' \<and>
         literal_result query results' = Inr v))"
    by (rule searchProducts_try_completes)
  from run show ?thesis
  proof
    assume a: "needs_fallback results = Inr False \<and> s' = s1 \<and> literal_result query results = Inr v"
    then have "length (result_products (Inr v)) = length (envelope_products results)"
      using literal_result_products by blast
    with a first show ?thesis
      by (simp add: answering_products_def)
  next
    assume "needs_fallback results = Inr True \<and>
      (\<exists>nameResults results'.
         makeBackendRequest env products_endpoint (listing_params query limit) s1
           = (Inr nameResults, s') \<and>
         fallback_results env query nameResults results = Inr results' \<and>
         literal_result query results' = Inr v)"
    then obtain nameResults results' where
      nf: "needs_fallback results = Inr True" and
      second: "makeBackendRequest env products_endpoint (listing_params query limit) s1
           = (Inr nameResults, s')" and
      fr: "fallback_results env query nameResults results = Inr results'" and
      lit: "literal_result query results' = Inr v"
      by blast
    have ans: "answering_products env query limit s =
        (if listing_products nameResults = [] then envelope_products results
         else listing_products nameResults)"
      using first nf second by (simp add: answering_products_def)
    from fallback_results_listing [OF fr] show ?thesis
    proof
      assume e: "listing_products nameResults = [] \<and> results' = results"
      with lit have "length (result_products (Inr v)) = length (envelope_products results)"
        using literal_result_products by blast
      with e ans show ?thesis by simp
    next
      assume "\<exists>xs ys. nameResults = JArr xs \<and> xs \<noteq> [] \<and> map_raise fallback_product xs = Inr ys \<and>
            results' = JObj [(''success'', JBool True), (''query'', query),
                       (''totalFound'', JNum (of_nat (length xs))), (''products'', JArr ys)]"
      then obtain xs ys where
        n: "nameResults = JArr xs" and ne: "xs \<noteq> []" and
        m: "map_raise fallback_product xs = Inr ys" and
        r': "results' = JObj [(''success'', JBool True), (''query'', query),
                       (''totalFound'', JNum (of_nat (length xs))), (''products'', JArr ys)]"
        by blast
      have "length (envelope_products results') = length xs"
        using map_raise_length [OF m] by (simp add: r' envelope_products_def)
      with literal_result_products [OF lit] n ne ans show ?thesis
        by (simp add: listing_products_def)
    qed
  qed
qed

lemma answering_products_within:
  assumes "answers_within env query limit b" and "0 \<le> b"
  shows "of_nat (length (answering_products env query limit s)) \<le> b"
proof (cases "makeBackendRequest env vector_endpoint (vector_params query limit) s")
  case (Pair r1 s1)
  show ?thesis
  proof (cases r1)
    case (Inl e)
    with Pair assms(2) show ?thesis by (simp add: answering_products_def)
  next
    case (Inr results)
    from makeBackendRequest_Inr [OF Pair [unfolded Inr]] assms(1)
    have env_ok: "of_nat (length (envelope_products results)) \<le> b"
      unfolding answers_within_def by blast
    show ?thesis
    proof (cases "needs_fallback results = Inr True")
      case False
      with Pair Inr env_ok show ?thesis by (simp add: answering_products_def)
    next
      case True
      obtain r2 s2 where second:
        "makeBackendRequest env products_endpoint (listing_params query limit) s1 = (r2, s2)"
        by (cases "makeBackendRequest env products_endpoint (listing_params query limit) s1")
      show ?thesis
      proof (cases r2)
        case (Inl e)
        with Pair Inr True second assms(2) show ?thesis by (simp add: answering_products_def)
      next
        case r2: (Inr nameResults)
        from makeBackendRequest_Inr [OF second [unfolded r2]] assms(1)
        have "of_nat (length (listing_products nameResults)) \<le> b"
          unfolding answers_within_def by blast
        with Pair Inr True second r2 env_ok show ?thesis
          by (simp add: answering_products_def)
      qed
    qed
  qed
qed

lemma request_calls_limit:
  "map_of ps ''limit'' = Some limit \<Longrightarrow> list_all (carries_limit limit) (request_calls env ep ps s)"
  by (simp add: request_calls_def login_calls_def)

text \<open>
  Claim C7, as the code has it. \<open>searchProducts\<close> sends the caller's \<open>limit\<close> with
  each of its requests and, when its \<open>try\<close> block completes, returns exactly as many
  products as the body that answered holds: the \<open>products\<close> array of the
  vector-search body, or the non-empty listing when the fallback branch is taken. It
  never truncates; a caught exception returns none. So the result holds at most
  \<open>limit\<close> products whenever the backend answers these requests with at most
  \<open>limit\<close> products (and \<open>limit\<close> is not negative).
\<close>

theorem products_match_answering_body:
  "(\<forall>v s'. searchProducts_try env query limit s = (Inr v, s') \<longrightarrow>
       searchProducts env query limit s = (Inr v, s') \<and>
       length (result_products (Inr v)) = length (answering_products env query limit s))
   \<and> (\<forall>e s'. searchProducts_try env query limit s = (Inl e, s') \<longrightarrow>
       result_products (fst (searchProducts env query limit s)) = [])
   \<and> list_all (carries_limit limit) (issued s (snd (searchProducts env query limit s)))
   \<and> (answers_within env query limit b \<and> 0 \<le> b \<longrightarrow>
       of_nat (length (result_products (fst (searchProducts env query limit s)))) \<le> b)"
proof -
  have A: "\<forall>v s'. searchProducts_try env query limit s = (Inr v, s') \<longrightarrow>
       searchProducts env query limit s = (Inr v, s') \<and>
       length (result_products (Inr v)) = length (answering_products env query limit s)"
    by (intro allI impI conjI) (simp_all add: searchProducts_def searchProducts_try_products)
  have B: "\<forall>e s'. searchProducts_try env query limit s = (Inl e, s') \<longrightarrow>
       result_products (fst (searchProducts env query limit s)) = []"
    by (simp add: searchProducts_def result_products_def failure_envelope_def own_def)
  have C: "list_all (carries_limit limit) (issued s (snd (searchProducts env query limit s)))"
  proof -
    obtain r0 s0 where t: "searchProducts_try env query limit s = (r0, s0)"
      by (cases "searchProducts_try env query limit s")
    from searchProducts_try_calls [OF t] t show ?thesis
      by (simp add: searchProducts_state issued_def request_calls_limit vector_params_def
            listing_params_def)
  qed
  have D: "answers_within env query limit b \<and> 0 \<le> b \<longrightarrow>
       of_nat (length (result_products (fst (searchProducts env query limit s)))) \<le> b"
  proof
    assume h: "answers_within env query limit b \<and> 0 \<le> b"
    show "of_nat (length (result_products (fst (searchProducts env query limit s)))) \<le> b"
    proof (cases "searchProducts_try env query limit s")
      case (Pair r0 s0)
      show ?thesis
      proof (cases r0)
        case (Inl e)
        with Pair B h show ?thesis by simp
      next
        case (Inr v)
        with Pair A have "searchProducts env query limit s = (Inr v, s0)"
          and "length (result_products (Inr v)) = length (answering_products env query limit s)"
          by simp_all
        with answering_products_within [of env query limit b s] h show ?thesis
          by simp
      qed
    qed
  qed
  from A B C D show ?thesis
    by (intro conjI)
qed

theorem products_match_answering_body_witness:
  "answers_within honouring_stub (JStr ''seringa'') (JNum 2) 2 \<and> (0::rat) \<le> 2
   \<and> of_nat (length (result_products
         (fst (searchProducts honouring_stub (JStr ''seringa'') (JNum 2) (initial_state 1000)))))
       \<le> (2::rat)
   \<and> (\<exists>v s'. searchProducts honouring_stub (JStr ''seringa'') (JNum 2) (initial_state 1000)
                = (Inr v, s')
         \<and> length (result_products (Inr v)) = 2)
   \<and> list_all (carries_limit (JNum 2))
        (issued (initial_state 1000)
           (snd (searchProducts honouring_stub (JStr ''seringa'') (JNum 2) (initial_state 1000))))"
proof -
  note T = products_match_answering_body [of honouring_stub "JStr ''seringa''" "JNum 2"
      "initial_state 1000" 2]
  have w: "answers_within honouring_stub (JStr ''seringa'') (JNum 2) 2"
    by (simp add: answers_within_def envelope_products_def listing_products_def
          honouring_stub_def limit_of_def vector_params_def listing_params_def
          vector_endpoint_def products_endpoint_def catalogue_def)
  have z: "(0::rat) \<le> 2"
    by simp
  have a: "of_nat (length (result_products
         (fst (searchProducts honouring_stub (JStr ''seringa'') (JNum 2) (initial_state 1000)))))
       \<le> (2::rat)"
    using w z T [THEN conjunct2, THEN conjunct2, THEN conjunct2] by blast
  have "\<exists>v s'. searchProducts_try honouring_stub (JStr ''seringa'') (JNum 2) (initial_state 1000)
          = (Inr v, s')"
    by (simp add: honouring_stub_def limit_of_def catalogue_def run_defs)
  then obtain v s' where
    run: "searchProducts_try honouring_stub (JStr ''seringa'') (JNum 2) (initial_state 1000)
          = (Inr v, s')"
    by blast
  have ans: "length (answering_products honouring_stub (JStr ''seringa'') (JNum 2)
                       (initial_state 1000)) = 2"
    by (simp add: answering_products_def envelope_products_def listing_products_def
          honouring_stub_def limit_of_def catalogue_def run_defs)
  from run T [THEN conjunct1] ans
  have b: "\<exists>v s'. searchProducts honouring_stub (JStr ''seringa'') (JNum 2) (initial_state 1000)
                = (Inr v, s')
         \<and> length (result_products (Inr v)) = 2"
    by auto
  from w z a b T [THEN conjunct2, THEN conjunct2, THEN conjunct1] show ?thesis
    by (intro conjI)
qed

text \<open>
  The claim as written fails for a backend that returns more products than asked:
  with \<open>limit = 1\<close> and a vector-search body of two products, the result holds two.
\<close>

theorem products_exceed_limit_counterexample:
  "length (result_products
     (fst (searchProducts overfull_stub (JStr ''seringa'') (JNum 1) (initial_state 1000)))) = 2"
  by (simp add: result_products_def own_def overfull_stub_def run_defs)

subsection \<open>Unknown operations\<close>

text \<open>
  Claim C9. A tool call whose name is neither \<open>products.search\<close> nor
  \<open>products.vectorSearch\<close> resolves with an output flagged \<open>isError\<close>; its text is
  the serialised \<open>{success: false, error: "Unknown tool: <name>"}\<close>. The handler
  does not reject, issues no request and leaves the state as it was.
\<close>

theorem unknown_tool_error_output:
  assumes "name \<noteq> ''products.search''" and "name \<noteq> ''products.vectorSearch''"
  shows "CallTool_handler env name args s =
           (Inr \<lparr>content_text =
                    JSON_stringify env
                      (JObj [(''success'', JBool False),
                             (''error'', JStr (''Unknown tool: '' @ name))]),
                  isError = True\<rparr>, s)"
  using assms by (simp add: CallTool_handler_def CallTool_try_def error_body_def)

theorem unknown_tool_error_output_witness:
  "''products.unknown'' \<noteq> ''products.search''
   \<and> ''products.unknown'' \<noteq> ''products.vectorSearch''
   \<and> CallTool_handler fallback_stub ''products.unknown'' (JObj [(''query'', JStr ''X'')])
        (initial_state 1000) =
           (Inr \<lparr>content_text =
                    JSON_stringify fallback_stub
                      (JObj [(''success'', JBool False),
                             (''error'', JStr ''Unknown tool: products.unknown'')]),
                  isError = True\<rparr>, initial_state 1000)"
proof -
  have a: "''products.unknown'' \<noteq> ''products.search''"
    and b: "''products.unknown'' \<noteq> ''products.vectorSearch''"
    by simp_all
  from a b unknown_tool_error_output [OF a b, of fallback_stub "JObj [(''query'', JStr ''X'')]"
      "initial_state 1000"]
  show ?thesis by simp
qed

subsection \<open>The success flag of the literal search\<close>

lemma literal_result_success:
  "literal_result query results = Inr v \<Longrightarrow> own v ''success'' = Some (JBool True)"
  by (auto simp: own_def dest!: literal_result_Inr)

text \<open>
  Claim C10. Whenever the \<open>try\<close> block of \<open>searchProducts\<close> completes without an
  exception, the result it returns has \<open>success = true\<close>. This includes the run
  (for a query that converts to a string, so that the requests are made) in which the
  vector-search body has \<open>success = false\<close> and the listing is empty: the
  vector-search body is then the one the final \<open>return\<close> reads, under a hard-coded
  \<open>success: true\<close>.
\<close>

theorem literal_search_success_true:
  "(searchProducts_try env query limit s = (Inr v, s') \<longrightarrow>
      searchProducts env query limit s = (Inr v, s') \<and> own v ''success'' = Some (JBool True))
   \<and> (printable query \<and>
      makeBackendRequest env vector_endpoint (vector_params query limit) s = (Inr results, s1) \<and>
      js_prop results ''success'' = Inr (JBool False) \<and>
      makeBackendRequest env products_endpoint (listing_params query limit) s1
        = (Inr (JArr []), s2) \<and>
      literal_result query results = Inr v2 \<longrightarrow>
      searchProducts env query limit s = (Inr v2, s2) \<and> own v2 ''success'' = Some (JBool True))"
proof -
  have A: "searchProducts env query limit s = (Inr v, s') \<and> own v ''success'' = Some (JBool True)"
    if t: "searchProducts_try env query limit s = (Inr v, s')"
  proof -
    obtain tf ys where "v = JObj [(''success'', JBool True), (''query'', query),
                          (''totalFound'', tf), (''products'', JArr ys)]"
      using searchProducts_try_Inr [OF t] by blast
    then have "own v ''success'' = Some (JBool True)"
      by (simp add: own_def)
    with t show ?thesis
      by (simp add: searchProducts_def)
  qed
  have B: "searchProducts env query limit s = (Inr v2, s2) \<and> own v2 ''success'' = Some (JBool True)"
    if "makeBackendRequest env vector_endpoint (vector_params query limit) s = (Inr results, s1)"
      and "js_prop results ''success'' = Inr (JBool False)"
      and "makeBackendRequest env products_endpoint (listing_params query limit) s1
        = (Inr (JArr []), s2)"
      and "literal_result query results = Inr v2"
      and "printable query"
  proof -
    from that(2) have "needs_fallback results = Inr True"
      by (simp add: needs_fallback_def)
    with that have "searchProducts_try env query limit s = (Inr v2, s2)"
      by (simp add: searchProducts_try_def interpolate_def fallback_results_def)
    with literal_result_success [OF that(4)] show ?thesis
      by (simp add: searchProducts_def)
  qed
  from A B show ?thesis by blast
qed

theorem literal_search_success_true_witness:
  "fst (searchProducts refusing_stub (JStr ''X'') (JNum 10) (initial_state 1000))
     = Inr (JObj [(''success'', JBool True), (''query'', JStr ''X''), (''totalFound'', JNum 0),
                  (''products'', JArr [])])
   \<and> own (JObj [(''success'', JBool True), (''query'', JStr ''X''), (''totalFound'', JNum 0),
                  (''products'', JArr [])]) ''success'' = Some (JBool True)
   \<and> (\<exists>v s'. searchProducts overfull_stub (JStr ''X'') (JNum 10) (initial_state 1000) = (Inr v, s')
         \<and> own v ''success'' = Some (JBool True))"
proof -
  let ?body = "JObj [(''success'', JBool False), (''message'', JStr ''Embedding service unavailable'')]"
  let ?v = "JObj [(''success'', JBool True), (''query'', JStr ''X''), (''totalFound'', JNum 0),
                  (''products'', JArr [])]"
  let ?first = "makeBackendRequest refusing_stub vector_endpoint
                  (vector_params (JStr ''X'') (JNum 10)) (initial_state 1000)"
  let ?second = "makeBackendRequest refusing_stub products_endpoint
                  (listing_params (JStr ''X'') (JNum 10)) (snd ?first)"
  have a: "?first = (Inr ?body, snd ?first)"
    by (simp add: refusing_stub_def run_defs)
  have b: "js_prop ?body ''success'' = Inr (JBool False)"
    by simp
  have c: "?second = (Inr (JArr []), snd ?second)"
    by (simp add: refusing_stub_def run_defs)
  have d: "literal_result (JStr ''X'') ?body = Inr ?v"
    by (simp add: literal_result_def js_or_def)
  have p: "printable (JStr ''X'')"
    by simp
  note T = literal_search_success_true [of refusing_stub "JStr ''X''" "JNum 10"
      "initial_state 1000" _ _ ?body "snd ?first" "snd ?second" ?v]
  from p a b c d T [THEN conjunct2]
  have e: "fst (searchProducts refusing_stub (JStr ''X'') (JNum 10) (initial_state 1000)) = Inr ?v
      \<and> own ?v ''success'' = Some (JBool True)"
    by simp
  have "\<exists>v s'. searchProducts_try overfull_stub (JStr ''X'') (JNum 10) (initial_state 1000)
          = (Inr v, s')"
    by (simp add: overfull_stub_def run_defs)
  then obtain v1 s1 where
    "searchProducts_try overfull_stub (JStr ''X'') (JNum 10) (initial_state 1000) = (Inr v1, s1)"
    by blast
  with literal_search_success_true [where env = overfull_stub and query = "JStr ''X''"
      and limit = "JNum 10" and s = "initial_state 1000" and v = v1 and s' = s1, THEN conjunct1]
  have f: "\<exists>v s'. searchProducts overfull_stub (JStr ''X'') (JNum 10) (initial_state 1000) = (Inr v, s')
         \<and> own v ''success'' = Some (JBool True)"
    by blast
  from e f show ?thesis
    by (intro conjI) blast+
qed

end
